theory Spec2Isabelle
  imports Main "HOL-Library.Word"
begin

unbundle bit_operations_syntax

section \<open>The Jaguar GPU/DSP interpreter (src/devices/cpu/jaguar/jaguar.cpp)\<close>

text \<open>
  A shallow embedding of the interpreter core. Every member function of
  \<^verbatim>\<open>jaguar_cpu_device\<close> becomes a function on the record \<open>jaguar\<close> of the
  device's member variables. A function whose C++ body may fail to return (the open
  fetch loop of \<^verbatim>\<open>imultn\<close>, a branch nested in a branch, the run loop) or has no
  defined behaviour (a shift by the full width, an index outside a register array)
  returns an \<open>option\<close>, and \<open>None\<close> stands for "no result".
\<close>

type_synonym u8 = "8 word"
type_synonym u16 = "16 word"
type_synonym u32 = "32 word"
type_synonym u64 = "64 word"

subsection \<open>Constants\<close>

definition ZFLAG :: u32 where "ZFLAG = 0x00001"
definition CFLAG :: u32 where "CFLAG = 0x00002"
definition NFLAG :: u32 where "NFLAG = 0x00004"
definition IFLAG :: u32 where "IFLAG = 0x00008"
definition EINT0FLAG :: u32 where "EINT0FLAG = 0x00010"
definition EINT1FLAG :: u32 where "EINT1FLAG = 0x00020"
definition EINT2FLAG :: u32 where "EINT2FLAG = 0x00040"
definition EINT3FLAG :: u32 where "EINT3FLAG = 0x00080"
definition EINT4FLAG :: u32 where "EINT4FLAG = 0x00100"
definition EINT04FLAGS :: u32 where
  "EINT04FLAGS = EINT0FLAG OR EINT1FLAG OR EINT2FLAG OR EINT3FLAG OR EINT4FLAG"
definition CINT0FLAG :: u32 where "CINT0FLAG = 0x00200"
definition CINT1FLAG :: u32 where "CINT1FLAG = 0x00400"
definition CINT2FLAG :: u32 where "CINT2FLAG = 0x00800"
definition CINT3FLAG :: u32 where "CINT3FLAG = 0x01000"
definition CINT4FLAG :: u32 where "CINT4FLAG = 0x02000"
definition CINT04FLAGS :: u32 where
  "CINT04FLAGS = CINT0FLAG OR CINT1FLAG OR CINT2FLAG OR CINT3FLAG OR CINT4FLAG"
definition RPAGEFLAG :: u32 where "RPAGEFLAG = 0x04000"
definition DMAFLAG :: u32 where "DMAFLAG = 0x08000"
definition EINT5FLAG :: u32 where "EINT5FLAG = 0x10000"
definition CINT5FLAG :: u32 where "CINT5FLAG = 0x20000"

lemmas flag_defs =
  ZFLAG_def CFLAG_def NFLAG_def IFLAG_def EINT0FLAG_def EINT1FLAG_def EINT2FLAG_def
  EINT3FLAG_def EINT4FLAG_def EINT04FLAGS_def CINT0FLAG_def CINT1FLAG_def CINT2FLAG_def
  CINT3FLAG_def CINT4FLAG_def CINT04FLAGS_def RPAGEFLAG_def DMAFLAG_def EINT5FLAG_def
  CINT5FLAG_def

text \<open>
  Modelled from the spec: the indices of the control registers in \<^verbatim>\<open>m_ctrl\<close> are
  enumerators of the header jaguar.h, which is not among the sources. The spec names the
  registers (flags, matrix control and address, endian select, program counter,
  control/status, hidata, and for the DSP the modulo mask, divide control, divide
  remainder); they are numbered here in the order of the register port, the GPU and the
  DSP names of one register sharing its index, as the shared code requires (it reads
  \<^verbatim>\<open>m_ctrl[G_FLAGS]\<close> and \<^verbatim>\<open>m_ctrl[G_CTRL]\<close> for both variants). The
  properties below use of these numbers only that different registers have different
  indices and that the two names of the flags, program counter and control registers
  agree.
\<close>

definition G_FLAGS :: nat where "G_FLAGS = 0"
definition G_MTXC :: nat where "G_MTXC = 1"
definition G_MTXA :: nat where "G_MTXA = 2"
definition G_END :: nat where "G_END = 3"
definition G_PC :: nat where "G_PC = 4"
definition G_CTRL :: nat where "G_CTRL = 5"
definition G_HIDATA :: nat where "G_HIDATA = 6"
definition G_DIVCTRL :: nat where "G_DIVCTRL = 7"
definition G_REMAINDER :: nat where "G_REMAINDER = 9"

definition D_FLAGS :: nat where "D_FLAGS = 0"
definition D_MTXC :: nat where "D_MTXC = 1"
definition D_MTXA :: nat where "D_MTXA = 2"
definition D_END :: nat where "D_END = 3"
definition D_PC :: nat where "D_PC = 4"
definition D_CTRL :: nat where "D_CTRL = 5"
definition D_MOD :: nat where "D_MOD = 6"
definition D_DIVCTRL :: nat where "D_DIVCTRL = 7"
definition D_REMAINDER :: nat where "D_REMAINDER = 9"

lemmas ctrl_index_defs =
  G_FLAGS_def G_MTXC_def G_MTXA_def G_END_def G_PC_def G_CTRL_def G_HIDATA_def
  G_DIVCTRL_def G_REMAINDER_def D_FLAGS_def D_MTXC_def D_MTXA_def D_END_def D_PC_def
  D_CTRL_def D_MOD_def D_DIVCTRL_def D_REMAINDER_def

text \<open>The input line states of the host (\<^verbatim>\<open>CLEAR_LINE\<close> is 0).\<close>

definition CLEAR_LINE :: int where "CLEAR_LINE = 0"
definition ASSERT_LINE :: int where "ASSERT_LINE = 1"

subsection \<open>The memory bus\<close>

text \<open>
  Modelled from the spec: the address space object behind \<^verbatim>\<open>m_program\<close> and
  \<^verbatim>\<open>m_cache\<close> belongs to the emulator framework, not to the sources. The spec
  gives it as a synchronous byte, word and double-word read and write interface over a
  24-bit, big-endian address space. It is modelled as a byte store indexed by the low 24
  bits of the address, together with the list of write accesses issued so far (newest
  first), which keeps the width of every access observable. The spec lets the bus be
  re-entrant: the memory map of the host may route a store to the control port of the
  device itself, so that \<^verbatim>\<open>ctrl_w\<close> runs in the middle of an opcode handler. That
  map belongs to the host driver, and the store here only changes the bytes and the log;
  a property that could be affected by such a re-entry carries the condition in its
  statement (the bank-switch sentinel below) and is not derived from its absence.
\<close>

datatype bus_access =
    WRITE_BYTE u32 u8
  | WRITE_WORD u32 u16
  | WRITE_DWORD u32 u32

record address_space =
  contents :: "24 word \<Rightarrow> u8"
  accesses :: "bus_access list"

definition read_byte :: "address_space \<Rightarrow> u32 \<Rightarrow> u8" where
  "read_byte sp a = contents sp (ucast a)"

definition read_word :: "address_space \<Rightarrow> u32 \<Rightarrow> u16" where
  "read_word sp a =
     push_bit 8 (ucast (contents sp (ucast a))) OR ucast (contents sp (ucast a + 1))"

definition read_dword :: "address_space \<Rightarrow> u32 \<Rightarrow> u32" where
  "read_dword sp a =
     push_bit 16 (ucast (read_word sp a)) OR ucast (read_word sp (a + 2))"

definition write_byte :: "address_space \<Rightarrow> u32 \<Rightarrow> u8 \<Rightarrow> address_space" where
  "write_byte sp a v =
     sp\<lparr>contents := (contents sp)(ucast a := v),
        accesses := WRITE_BYTE a v # accesses sp\<rparr>"

definition write_word :: "address_space \<Rightarrow> u32 \<Rightarrow> u16 \<Rightarrow> address_space" where
  "write_word sp a v =
     sp\<lparr>contents := (contents sp)(ucast a := ucast (drop_bit 8 v), ucast a + 1 := ucast v),
        accesses := WRITE_WORD a v # accesses sp\<rparr>"

definition write_dword :: "address_space \<Rightarrow> u32 \<Rightarrow> u32 \<Rightarrow> address_space" where
  "write_dword sp a v =
     sp\<lparr>contents := (contents sp)
          (ucast a := ucast (drop_bit 24 v), ucast a + 1 := ucast (drop_bit 16 v),
           ucast a + 2 := ucast (drop_bit 8 v), ucast a + 3 := ucast v),
        accesses := WRITE_DWORD a v # accesses sp\<rparr>"

subsection \<open>The device state\<close>

text \<open>
  \<^verbatim>\<open>m_b0\<close> and \<^verbatim>\<open>m_b1\<close> are pointers to one of the two register arrays; the
  two 32-entry arrays are functions on the 5-bit register index. The cycle counters are
  C++ \<^verbatim>\<open>int\<close>s and are kept as unbounded integers. Calls to the host
  (\<^verbatim>\<open>set_input_line\<close>, \<^verbatim>\<open>yield\<close>, the \<^verbatim>\<open>m_cpu_interrupt\<close> callback) are
  recorded in \<open>host_calls\<close>, newest first.
\<close>

datatype bank_ptr = PTR_R | PTR_A

datatype host_call = SET_HALT_LINE int | YIELD | CPU_INTERRUPT int

type_synonym regfile = "5 word \<Rightarrow> u32"

record jaguar =
  m_r :: regfile
  m_a :: regfile
  m_b0 :: bank_ptr
  m_b1 :: bank_ptr
  m_ctrl :: "nat \<Rightarrow> u32"
  m_ppc :: u32
  m_accum :: u64
  m_icount :: int
  m_bankswitch_icount :: int
  m_version :: u8
  m_isdsp :: bool
  m_internal_ram_start :: u32
  m_internal_ram_end :: u32
  m_program :: address_space
  host_calls :: "host_call list"

text \<open>The macros \<^verbatim>\<open>PC\<close> and \<^verbatim>\<open>FLAGS\<close> and assignments to them.\<close>

definition PC :: "jaguar \<Rightarrow> u32" where
  "PC s = m_ctrl s G_PC"

definition FLAGS :: "jaguar \<Rightarrow> u32" where
  "FLAGS s = m_ctrl s G_FLAGS"

definition set_ctrl :: "nat \<Rightarrow> u32 \<Rightarrow> jaguar \<Rightarrow> jaguar" where
  "set_ctrl i v s = s\<lparr>m_ctrl := (m_ctrl s)(i := v)\<rparr>"

definition set_PC :: "u32 \<Rightarrow> jaguar \<Rightarrow> jaguar" where
  "set_PC v s = set_ctrl G_PC v s"

definition set_FLAGS :: "u32 \<Rightarrow> jaguar \<Rightarrow> jaguar" where
  "set_FLAGS v s = set_ctrl G_FLAGS v s"

definition set_r :: "5 word \<Rightarrow> u32 \<Rightarrow> jaguar \<Rightarrow> jaguar" where
  "set_r i v s = s\<lparr>m_r := (m_r s)(i := v)\<rparr>"

definition set_a :: "5 word \<Rightarrow> u32 \<Rightarrow> jaguar \<Rightarrow> jaguar" where
  "set_a i v s = s\<lparr>m_a := (m_a s)(i := v)\<rparr>"

text \<open>The flag helpers \<^verbatim>\<open>CLR_*\<close> and \<^verbatim>\<open>SET_*\<close>.\<close>

definition CLR_Z :: "jaguar \<Rightarrow> jaguar" where
  "CLR_Z s = set_FLAGS (FLAGS s AND NOT ZFLAG) s"

definition CLR_ZN :: "jaguar \<Rightarrow> jaguar" where
  "CLR_ZN s = set_FLAGS (FLAGS s AND NOT (ZFLAG OR NFLAG)) s"

definition CLR_ZNC :: "jaguar \<Rightarrow> jaguar" where
  "CLR_ZNC s = set_FLAGS (FLAGS s AND NOT (CFLAG OR ZFLAG OR NFLAG)) s"

definition SET_Z :: "u32 \<Rightarrow> jaguar \<Rightarrow> jaguar" where
  "SET_Z r s = set_FLAGS (FLAGS s OR (if r = 0 then 1 else 0)) s"

definition SET_C_ADD :: "u32 \<Rightarrow> u32 \<Rightarrow> jaguar \<Rightarrow> jaguar" where
  "SET_C_ADD a b s = set_FLAGS (FLAGS s OR push_bit 1 (if b > NOT a then 1 else 0)) s"

definition SET_C_SUB :: "u32 \<Rightarrow> u32 \<Rightarrow> jaguar \<Rightarrow> jaguar" where
  "SET_C_SUB a b s = set_FLAGS (FLAGS s OR push_bit 1 (if b > a then 1 else 0)) s"

definition SET_N :: "u32 \<Rightarrow> jaguar \<Rightarrow> jaguar" where
  "SET_N r s = set_FLAGS (FLAGS s OR (drop_bit 29 r AND 4)) s"

definition SET_ZN :: "u32 \<Rightarrow> jaguar \<Rightarrow> jaguar" where
  "SET_ZN r s = SET_Z r (SET_N r s)"

definition SET_ZNC_ADD :: "u32 \<Rightarrow> u32 \<Rightarrow> u32 \<Rightarrow> jaguar \<Rightarrow> jaguar" where
  "SET_ZNC_ADD a b r s = SET_C_ADD a b (SET_Z r (SET_N r s))"

definition SET_ZNC_SUB :: "u32 \<Rightarrow> u32 \<Rightarrow> u32 \<Rightarrow> jaguar \<Rightarrow> jaguar" where
  "SET_ZNC_SUB a b r s = SET_C_SUB a b (SET_Z r (SET_N r s))"

text \<open>Memory accessors.\<close>

definition READBYTE :: "jaguar \<Rightarrow> u32 \<Rightarrow> u8" where
  "READBYTE s a = read_byte (m_program s) a"

definition READWORD :: "jaguar \<Rightarrow> u32 \<Rightarrow> u16" where
  "READWORD s a = read_word (m_program s) a"

definition READLONG :: "jaguar \<Rightarrow> u32 \<Rightarrow> u32" where
  "READLONG s a = read_dword (m_program s) a"

definition WRITEBYTE :: "u32 \<Rightarrow> u8 \<Rightarrow> jaguar \<Rightarrow> jaguar" where
  "WRITEBYTE a v s = s\<lparr>m_program := write_byte (m_program s) a v\<rparr>"

definition WRITEWORD :: "u32 \<Rightarrow> u16 \<Rightarrow> jaguar \<Rightarrow> jaguar" where
  "WRITEWORD a v s = s\<lparr>m_program := write_word (m_program s) a v\<rparr>"

definition WRITELONG :: "u32 \<Rightarrow> u32 \<Rightarrow> jaguar \<Rightarrow> jaguar" where
  "WRITELONG a v s = s\<lparr>m_program := write_dword (m_program s) a v\<rparr>"

definition ROPCODE :: "jaguar \<Rightarrow> u32 \<Rightarrow> u16" where
  "ROPCODE s pc = read_word (m_program s) pc"

text \<open>The quick-value table.\<close>

definition convert_zero :: "u32 list" where
  "convert_zero =
     [32,1,2,3,4,5,6,7,8,9,10,11,12,13,14,15,16,17,18,19,20,21,22,23,24,25,26,27,28,29,30,31]"

subsection \<open>Lookup tables built by \<^verbatim>\<open>init_tables\<close>\<close>

definition mirror_table :: "nat \<Rightarrow> u16" where
  "mirror_table n =
     (let i = (of_nat n :: u32) in ucast
       ((drop_bit 15 i AND 0x0001) OR (drop_bit 13 i AND 0x0002) OR
        (drop_bit 11 i AND 0x0004) OR (drop_bit 9 i AND 0x0008) OR
        (drop_bit 7 i AND 0x0010) OR (drop_bit 5 i AND 0x0020) OR
        (drop_bit 3 i AND 0x0040) OR (drop_bit 1 i AND 0x0080) OR
        (push_bit 1 i AND 0x0100) OR (push_bit 3 i AND 0x0200) OR
        (push_bit 5 i AND 0x0400) OR (push_bit 7 i AND 0x0800) OR
        (push_bit 9 i AND 0x1000) OR (push_bit 11 i AND 0x2000) OR
        (push_bit 13 i AND 0x4000) OR (push_bit 15 i AND 0x8000)))"

definition condition_entry :: "u32 \<Rightarrow> u32 \<Rightarrow> u8" where
  "condition_entry i j =
     (let result = (1 :: u8);
          result = (if j AND 1 \<noteq> 0 \<and> i AND ZFLAG \<noteq> 0 then 0 else result);
          result = (if j AND 2 \<noteq> 0 \<and> \<not> (i AND ZFLAG \<noteq> 0) then 0 else result);
          result = (if j AND 4 \<noteq> 0 \<and> i AND push_bit (unat (drop_bit 4 j)) CFLAG \<noteq> 0
                    then 0 else result);
          result = (if j AND 8 \<noteq> 0 \<and> \<not> (i AND push_bit (unat (drop_bit 4 j)) CFLAG \<noteq> 0)
                    then 0 else result)
      in result)"

definition condition_table :: "nat \<Rightarrow> u8" where
  "condition_table n = condition_entry (of_nat (n div 32)) (of_nat (n mod 32))"

definition CONDITION :: "jaguar \<Rightarrow> u8 \<Rightarrow> u8" where
  "CONDITION s x = condition_table (unat x + unat (push_bit 5 (m_ctrl s G_FLAGS AND 7)))"

subsection \<open>Construction and reset\<close>

definition jaguar_cpu_device :: "u8 \<Rightarrow> bool \<Rightarrow> jaguar \<Rightarrow> jaguar" where
  "jaguar_cpu_device version isdsp s =
     (let s = s\<lparr>m_version := version, m_isdsp := isdsp\<rparr>
      in if isdsp
         then s\<lparr>m_internal_ram_start := 0xf1b000, m_internal_ram_end := 0xf1cfff\<rparr>
         else s\<lparr>m_internal_ram_start := 0xf03000, m_internal_ram_end := 0xf03fff\<rparr>)"

definition jaguargpu_cpu_device :: "jaguar \<Rightarrow> jaguar" where
  "jaguargpu_cpu_device s = jaguar_cpu_device 2 False s"

definition jaguardsp_cpu_device :: "jaguar \<Rightarrow> jaguar" where
  "jaguardsp_cpu_device s = jaguar_cpu_device 2 True s"

definition device_start :: "jaguar \<Rightarrow> jaguar" where
  "device_start s =
     (let s = (if m_isdsp s
               then s\<lparr>m_internal_ram_start := 0xf1b000, m_internal_ram_end := 0xf1cfff\<rparr>
               else s\<lparr>m_internal_ram_start := 0xf03000, m_internal_ram_end := 0xf03fff\<rparr>)
      in s\<lparr>m_r := (\<lambda>_. 0), m_a := (\<lambda>_. 0), m_ctrl := (\<lambda>_. 0), m_ppc := 0, m_accum := 0,
           m_bankswitch_icount := 0\<rparr>)"

definition device_reset :: "jaguar \<Rightarrow> jaguar" where
  "device_reset s = s\<lparr>m_b0 := PTR_R, m_b1 := PTR_A\<rparr>"

subsection \<open>Register banks\<close>

text \<open>
  The exchange loop of \<^verbatim>\<open>update_register_banks\<close>: \<open>exchange i (r, a)\<close> runs the
  loop body for the indices \<open>i, i + 1, ..., 31\<close>.
\<close>

function exchange :: "nat \<Rightarrow> regfile \<times> regfile \<Rightarrow> regfile \<times> regfile" where
  "exchange i (r, a) =
     (if i < 32
      then (let temp = r (of_nat i);
                r = r(of_nat i := a (of_nat i));
                a = a(of_nat i := temp)
            in exchange (i + 1) (r, a))
      else (r, a))"
  by pat_completeness auto
termination
  by (relation "measure (\<lambda>(i, _). 32 - i)") auto

declare exchange.simps [simp del]

definition update_register_banks :: "jaguar \<Rightarrow> jaguar" where
  "update_register_banks s =
     (let bank = FLAGS s AND RPAGEFLAG;
          bank = (if FLAGS s AND IFLAG \<noteq> 0 then 0 else bank)
      in if (bank = 0 \<and> m_b0 s \<noteq> PTR_R) \<or> (bank \<noteq> 0 \<and> m_b1 s \<noteq> PTR_R)
         then (let s = s\<lparr>m_bankswitch_icount := m_icount s - 1\<rparr>;
                   (r, a) = exchange 0 (m_r s, m_a s);
                   s = s\<lparr>m_r := r, m_a := a\<rparr>
               in if bank = 0
                  then s\<lparr>m_b0 := PTR_R, m_b1 := PTR_A\<rparr>
                  else s\<lparr>m_b0 := PTR_A, m_b1 := PTR_R\<rparr>)
         else s)"

subsection \<open>Interrupts\<close>

definition check_irqs :: "jaguar \<Rightarrow> jaguar" where
  "check_irqs s =
     (if FLAGS s AND IFLAG \<noteq> 0 then s
      else
        let bits = (ucast (drop_bit 6 (m_ctrl s G_CTRL) AND 0x1f) :: u8);
            bits = bits OR ucast (drop_bit 10 (m_ctrl s G_CTRL) AND 0x20);
            mask = (ucast (drop_bit 4 (FLAGS s) AND 0x1f) :: u8);
            mask = mask OR ucast (drop_bit 11 (FLAGS s) AND 0x20);
            bits = bits AND mask
        in if bits = 0 then s
           else
             let which = (0 :: u32);
                 which = (if bits AND 0x01 \<noteq> 0 then 0 else which);
                 which = (if bits AND 0x02 \<noteq> 0 then 1 else which);
                 which = (if bits AND 0x04 \<noteq> 0 then 2 else which);
                 which = (if bits AND 0x08 \<noteq> 0 then 3 else which);
                 which = (if bits AND 0x10 \<noteq> 0 then 4 else which);
                 which = (if bits AND 0x20 \<noteq> 0 then 5 else which);
                 s = set_FLAGS (FLAGS s OR IFLAG) s;
                 s = update_register_banks s;
                 s = set_r 31 (m_r s 31 - 4) s;
                 s = WRITELONG (m_r s 31) (PC s - 2) s;
                 s = set_PC (if m_isdsp s then 0xf1b000 else 0xf03000) s
             in set_PC (PC s + which * 0x10) s)"

definition execute_set_input :: "int \<Rightarrow> int \<Rightarrow> jaguar \<Rightarrow> jaguar" where
  "execute_set_input irqline state s =
     (let mask = (if irqline < 5 then push_bit (nat irqline) 0x40 else 0x10000 :: u32);
          s = set_ctrl G_CTRL (m_ctrl s G_CTRL AND NOT mask) s
      in if state \<noteq> CLEAR_LINE
         then check_irqs (set_ctrl G_CTRL (m_ctrl s G_CTRL OR mask) s)
         else s)"

definition device_post_load :: "jaguar \<Rightarrow> jaguar" where
  "device_post_load s = check_irqs (update_register_banks s)"

text \<open>
  The value of \<^verbatim>\<open>bits\<close> in \<^verbatim>\<open>check_irqs\<close> after masking: bit \<open>k\<close> says
  that \<^verbatim>\<open>check_irqs\<close> takes line \<open>k\<close> as pending and enabled.
\<close>

definition irq_bits :: "jaguar \<Rightarrow> u8" where
  "irq_bits s =
     (ucast (drop_bit 6 (m_ctrl s G_CTRL) AND 0x1f) OR
      ucast (drop_bit 10 (m_ctrl s G_CTRL) AND 0x20)) AND
     (ucast (drop_bit 4 (FLAGS s) AND 0x1f) OR ucast (drop_bit 11 (FLAGS s) AND 0x20))"

subsection \<open>Opcodes\<close>

text \<open>
  Operand decoding. A register index \<^verbatim>\<open>op & 31\<close> or \<^verbatim>\<open>(op >> 5) & 31\<close> is
  the conversion of the opcode word to a 5-bit word; \<open>QUICK\<close> is
  \<^verbatim>\<open>convert_zero[(op >> 5) & 31]\<close>. A signed 16 by 16 multiplication
  \<^verbatim>\<open>(int16_t)r1 * (int16_t)r2\<close> is carried out on 32-bit integers. Where C++
  promotes an unsigned 16-bit operand to \<^verbatim>\<open>int\<close> before a multiplication or a left
  shift whose result is stored in a \<^verbatim>\<open>u32\<close> (\<^verbatim>\<open>mult\<close>, \<^verbatim>\<open>mirror\<close>,
  \<^verbatim>\<open>movei\<close>, \<^verbatim>\<open>bset\<close>, \<^verbatim>\<open>bclr\<close>), the result is taken modulo \<open>2^32\<close>.
\<close>

definition DREG :: "u16 \<Rightarrow> 5 word" where
  "DREG op = ucast op"

definition SREG :: "u16 \<Rightarrow> 5 word" where
  "SREG op = ucast (drop_bit 5 op)"

definition QUICK :: "u16 \<Rightarrow> u32" where
  "QUICK op = convert_zero ! unat (drop_bit 5 op AND 31)"

definition imul16 :: "u32 \<Rightarrow> u32 \<Rightarrow> u32" where
  "imul16 r1 r2 = scast (ucast r1 :: u16) * scast (ucast r2 :: u16)"

definition abs_rn :: "u16 \<Rightarrow> jaguar \<Rightarrow> jaguar" where
  "abs_rn op s =
     (let dreg = DREG op;
          res = m_r s dreg;
          s = CLR_ZNC s;
          (res, s) = (if res AND 0x80000000 \<noteq> 0
                      then (- res, set_FLAGS (FLAGS s OR CFLAG) (set_r dreg (- res) s))
                      else (res, s))
      in SET_Z res s)"

definition add_rn_rn :: "u16 \<Rightarrow> jaguar \<Rightarrow> jaguar" where
  "add_rn_rn op s =
     (let dreg = DREG op;
          r1 = m_r s (SREG op);
          r2 = m_r s dreg;
          res = r2 + r1;
          s = set_r dreg res s
      in SET_ZNC_ADD r2 r1 res (CLR_ZNC s))"

definition addc_rn_rn :: "u16 \<Rightarrow> jaguar \<Rightarrow> jaguar" where
  "addc_rn_rn op s =
     (let dreg = DREG op;
          r1 = m_r s (SREG op);
          r2 = m_r s dreg;
          c = drop_bit 1 (FLAGS s) AND 1;
          res = r2 + r1 + c;
          s = set_r dreg res s
      in SET_ZNC_ADD r2 (r1 + c) res (CLR_ZNC s))"

definition addq_n_rn :: "u16 \<Rightarrow> jaguar \<Rightarrow> jaguar" where
  "addq_n_rn op s =
     (let dreg = DREG op;
          r1 = QUICK op;
          r2 = m_r s dreg;
          res = r2 + r1;
          s = set_r dreg res s
      in SET_ZNC_ADD r2 r1 res (CLR_ZNC s))"

definition addqmod_n_rn :: "u16 \<Rightarrow> jaguar \<Rightarrow> jaguar" where
  "addqmod_n_rn op s =
     (let dreg = DREG op;
          r1 = QUICK op;
          r2 = m_r s dreg;
          res = r2 + r1;
          res = (res AND NOT (m_ctrl s D_MOD)) OR (r2 AND NOT (m_ctrl s D_MOD));
          s = set_r dreg res s
      in SET_ZNC_ADD r2 r1 res (CLR_ZNC s))"

definition addqt_n_rn :: "u16 \<Rightarrow> jaguar \<Rightarrow> jaguar" where
  "addqt_n_rn op s =
     (let dreg = DREG op;
          r1 = QUICK op;
          r2 = m_r s dreg;
          res = r2 + r1
      in set_r dreg res s)"

definition and_rn_rn :: "u16 \<Rightarrow> jaguar \<Rightarrow> jaguar" where
  "and_rn_rn op s =
     (let dreg = DREG op;
          r1 = m_r s (SREG op);
          r2 = m_r s dreg;
          res = r2 AND r1;
          s = set_r dreg res s
      in SET_ZN res (CLR_ZN s))"

definition bclr_n_rn :: "u16 \<Rightarrow> jaguar \<Rightarrow> jaguar" where
  "bclr_n_rn op s =
     (let dreg = DREG op;
          r1 = unat (drop_bit 5 op AND 31);
          r2 = m_r s dreg;
          res = r2 AND NOT (push_bit r1 1);
          s = set_r dreg res s
      in SET_ZN res (CLR_ZN s))"

definition bset_n_rn :: "u16 \<Rightarrow> jaguar \<Rightarrow> jaguar" where
  "bset_n_rn op s =
     (let dreg = DREG op;
          r1 = unat (drop_bit 5 op AND 31);
          r2 = m_r s dreg;
          res = r2 OR push_bit r1 1;
          s = set_r dreg res s
      in SET_ZN res (CLR_ZN s))"

definition btst_n_rn :: "u16 \<Rightarrow> jaguar \<Rightarrow> jaguar" where
  "btst_n_rn op s =
     (let r1 = unat (drop_bit 5 op AND 31);
          r2 = m_r s (DREG op);
          s = CLR_Z s
      in set_FLAGS (FLAGS s OR (drop_bit r1 (NOT r2) AND 1)) s)"

definition cmp_rn_rn :: "u16 \<Rightarrow> jaguar \<Rightarrow> jaguar" where
  "cmp_rn_rn op s =
     (let r1 = m_r s (SREG op);
          r2 = m_r s (DREG op);
          res = r2 - r1
      in SET_ZNC_SUB r2 r1 res (CLR_ZNC s))"

definition cmpq_n_rn :: "u16 \<Rightarrow> jaguar \<Rightarrow> jaguar" where
  "cmpq_n_rn op s =
     (let r1 = (scast (signed_drop_bit 3 (ucast (drop_bit 2 op) :: u8)) :: u32);
          r2 = m_r s (DREG op);
          res = r2 - r1
      in SET_ZNC_SUB r2 r1 res (CLR_ZNC s))"

definition div_rn_rn :: "u16 \<Rightarrow> jaguar \<Rightarrow> jaguar" where
  "div_rn_rn op s =
     (let dreg = DREG op;
          r1 = m_r s (SREG op);
          r2 = m_r s dreg
      in if r1 \<noteq> 0
         then (if m_ctrl s D_DIVCTRL AND 1 \<noteq> 0
               then (let s = set_r dreg (ucast (push_bit 16 (ucast r2 :: u64) div ucast r1)) s
                     in set_ctrl D_REMAINDER
                          (ucast (push_bit 16 (ucast r2 :: u64) mod ucast r1)) s)
               else (let s = set_r dreg (r2 div r1) s
                     in set_ctrl D_REMAINDER (r2 mod r1) s))
         else set_r dreg 0xffffffff s)"

definition illegal :: "u16 \<Rightarrow> jaguar \<Rightarrow> jaguar" where
  "illegal op s = s"

definition imacn_rn_rn :: "u16 \<Rightarrow> jaguar \<Rightarrow> jaguar" where
  "imacn_rn_rn op s =
     (let r1 = m_r s (SREG op);
          r2 = m_r s (DREG op)
      in s\<lparr>m_accum := m_accum s + scast (imul16 r1 r2)\<rparr>)"

definition imult_rn_rn :: "u16 \<Rightarrow> jaguar \<Rightarrow> jaguar" where
  "imult_rn_rn op s =
     (let dreg = DREG op;
          r1 = m_r s (SREG op);
          r2 = m_r s dreg;
          res = imul16 r1 r2;
          s = set_r dreg res s
      in SET_ZN res (CLR_ZN s))"

text \<open>
  The fetch loop of \<^verbatim>\<open>imultn\<close>: it runs as long as the word at the program counter
  is of class 20 and returns the state together with the first word of another class.
\<close>

partial_function (option) imultn_loop :: "u16 \<Rightarrow> jaguar \<Rightarrow> (u16 \<times> jaguar) option" where
  "imultn_loop op s =
     (if drop_bit 10 op = 20
      then (let r1 = m_r s (SREG op);
                r2 = m_r s (DREG op);
                s = s\<lparr>m_accum := m_accum s + scast (imul16 r1 r2)\<rparr>;
                s = set_PC (PC s + 2) s
            in imultn_loop (ROPCODE s (PC s)) s)
      else Some (op, s))"

definition imultn_rn_rn :: "u16 \<Rightarrow> jaguar \<Rightarrow> jaguar option" where
  "imultn_rn_rn op s =
     (let dreg = DREG op;
          r1 = m_r s (SREG op);
          r2 = m_r s dreg;
          res = imul16 r1 r2;
          s = s\<lparr>m_accum := scast res\<rparr>;
          s = SET_ZN res (CLR_ZN s)
      in case imultn_loop (ROPCODE s (PC s)) s of
           None \<Rightarrow> None
         | Some (op, s) \<Rightarrow>
             if drop_bit 10 op = 19
             then (let s = set_PC (PC s + 2) s
                   in Some (set_r (DREG op) (ucast (m_accum s)) s))
             else Some s)"

text \<open>
  The two branch handlers call the handler of the instruction in the delay slot through
  \<^verbatim>\<open>m_table\<close>; the call \<^verbatim>\<open>(this->*m_table[op >> 10])(op)\<close> is the parameter
  \<open>invoke\<close> here and is bound to the dispatcher below. The debugger hook has no
  effect on the device.
\<close>

definition jr_cc_n ::
  "(u16 \<Rightarrow> jaguar \<Rightarrow> jaguar option) \<Rightarrow> u16 \<Rightarrow> jaguar \<Rightarrow> jaguar option" where
  "jr_cc_n invoke op s =
     (if CONDITION s (ucast op AND 31) \<noteq> 0
      then (let r1 = (scast (signed_drop_bit 2 (ucast (drop_bit 2 op AND 0xf8) :: u8)) :: u32);
                newpc = PC s + r1;
                op = ROPCODE s (PC s);
                s = set_PC newpc s
            in Option.bind (invoke op s) (\<lambda>s. Some (s\<lparr>m_icount := m_icount s - 3\<rparr>)))
      else Some s)"

definition jump_cc_rn ::
  "(u16 \<Rightarrow> jaguar \<Rightarrow> jaguar option) \<Rightarrow> u16 \<Rightarrow> jaguar \<Rightarrow> jaguar option" where
  "jump_cc_rn invoke op s =
     (if CONDITION s (ucast op AND 31) \<noteq> 0
      then (let reg = SREG op;
                newpc = (if m_icount s = m_bankswitch_icount s then m_a s reg else m_r s reg);
                op = ROPCODE s (PC s);
                s = set_PC newpc s
            in Option.bind (invoke op s) (\<lambda>s. Some (s\<lparr>m_icount := m_icount s - 3\<rparr>)))
      else Some s)"

definition load_rn_rn :: "u16 \<Rightarrow> jaguar \<Rightarrow> jaguar" where
  "load_rn_rn op s =
     (let r1 = m_r s (SREG op)
      in set_r (DREG op) (READLONG s r1) s)"

definition load_r14n_rn :: "u16 \<Rightarrow> jaguar \<Rightarrow> jaguar" where
  "load_r14n_rn op s =
     (let r1 = QUICK op
      in set_r (DREG op) (READLONG s (m_r s 14 + 4 * r1)) s)"

definition load_r15n_rn :: "u16 \<Rightarrow> jaguar \<Rightarrow> jaguar" where
  "load_r15n_rn op s =
     (let r1 = QUICK op
      in set_r (DREG op) (READLONG s (m_r s 15 + 4 * r1)) s)"

definition load_r14rn_rn :: "u16 \<Rightarrow> jaguar \<Rightarrow> jaguar" where
  "load_r14rn_rn op s =
     (let r1 = m_r s (SREG op)
      in set_r (DREG op) (READLONG s (m_r s 14 + r1)) s)"

definition load_r15rn_rn :: "u16 \<Rightarrow> jaguar \<Rightarrow> jaguar" where
  "load_r15rn_rn op s =
     (let r1 = m_r s (SREG op)
      in set_r (DREG op) (READLONG s (m_r s 15 + r1)) s)"

definition loadb_rn_rn :: "u16 \<Rightarrow> jaguar \<Rightarrow> jaguar" where
  "loadb_rn_rn op s =
     (let r1 = m_r s (SREG op)
      in if r1 \<ge> m_internal_ram_start s \<and> r1 \<le> m_internal_ram_end s
         then set_r (DREG op) (READLONG s (r1 AND NOT 3)) s
         else set_r (DREG op) (ucast (READBYTE s r1)) s)"

definition loadw_rn_rn :: "u16 \<Rightarrow> jaguar \<Rightarrow> jaguar" where
  "loadw_rn_rn op s =
     (let r1 = m_r s (SREG op)
      in if r1 \<ge> m_internal_ram_start s \<and> r1 \<le> m_internal_ram_end s
         then set_r (DREG op) (READLONG s (r1 AND NOT 3)) s
         else set_r (DREG op) (ucast (READWORD s r1)) s)"

definition loadp_rn_rn :: "u16 \<Rightarrow> jaguar \<Rightarrow> jaguar" where
  "loadp_rn_rn op s =
     (let r1 = m_r s (SREG op)
      in if r1 \<ge> m_internal_ram_start s \<and> r1 \<le> m_internal_ram_end s
         then set_r (DREG op) (READLONG s (r1 AND NOT 3)) s
         else (let s = set_ctrl G_HIDATA (READLONG s r1) s
               in set_r (DREG op) (READLONG s (r1 + 4)) s))"

definition mirror_rn :: "u16 \<Rightarrow> jaguar \<Rightarrow> jaguar" where
  "mirror_rn op s =
     (let dreg = DREG op;
          r1 = m_r s dreg;
          res = push_bit 16 (ucast (mirror_table (unat (r1 AND 0xffff)))) OR
                ucast (mirror_table (unat (drop_bit 16 r1)));
          s = set_r dreg res s
      in SET_ZN res (CLR_ZN s))"

text \<open>
  The summation loop of \<^verbatim>\<open>mmult\<close>, for the indices \<open>i, ..., count - 1\<close>;
  \<open>step\<close> is the address increment of the chosen sub-mode. The array behind
  \<^verbatim>\<open>m_b1\<close> has 32 entries, and an index beyond them has no defined result.
\<close>

definition bank1 :: "jaguar \<Rightarrow> regfile" where
  "bank1 s = (case m_b1 s of PTR_R \<Rightarrow> m_r s | PTR_A \<Rightarrow> m_a s)"

function mmult_loop ::
  "jaguar \<Rightarrow> nat \<Rightarrow> u32 \<Rightarrow> nat \<Rightarrow> nat \<Rightarrow> u32 \<Rightarrow> u64 \<Rightarrow> u64 option" where
  "mmult_loop s sreg step count i addr accum =
     (if i < count
      then (if sreg + i div 2 < 32
            then mmult_loop s sreg step count (i + 1) (addr + step)
                   (accum + scast (imul16
                      (drop_bit (16 * (1 - i mod 2)) (bank1 s (of_nat (sreg + i div 2))))
                      (ucast (READWORD s addr))))
            else None)
      else Some accum)"
  by pat_completeness auto
termination
  by (relation "measure (\<lambda>(s, sreg, step, count, i, addr, accum). count - i)") auto

declare mmult_loop.simps [simp del]

definition mmult_rn_rn :: "u16 \<Rightarrow> jaguar \<Rightarrow> jaguar option" where
  "mmult_rn_rn op s =
     (let count = unat (m_ctrl s G_MTXC AND 15);
          sreg = unat (SREG op);
          dreg = DREG op;
          addr = m_ctrl s G_MTXA;
          step = (if m_ctrl s G_MTXC AND 0x10 = 0 then 2 else 2 * of_nat count)
      in case mmult_loop s sreg step count 0 addr 0 of
           None \<Rightarrow> None
         | Some accum \<Rightarrow>
             (let res = (ucast accum :: u32);
                  s = set_r dreg res s
              in Some (SET_ZN res (CLR_ZN s))))"

definition move_rn_rn :: "u16 \<Rightarrow> jaguar \<Rightarrow> jaguar" where
  "move_rn_rn op s = set_r (DREG op) (m_r s (SREG op)) s"

definition move_pc_rn :: "u16 \<Rightarrow> jaguar \<Rightarrow> jaguar" where
  "move_pc_rn op s = set_r (DREG op) (m_ppc s) s"

definition movefa_rn_rn :: "u16 \<Rightarrow> jaguar \<Rightarrow> jaguar" where
  "movefa_rn_rn op s = set_r (DREG op) (m_a s (SREG op)) s"

definition movei_n_rn :: "u16 \<Rightarrow> jaguar \<Rightarrow> jaguar" where
  "movei_n_rn op s =
     (let res = ucast (ROPCODE s (PC s)) OR push_bit 16 (ucast (ROPCODE s (PC s + 2)));
          s = set_PC (PC s + 4) s
      in set_r (DREG op) res s)"

definition moveq_n_rn :: "u16 \<Rightarrow> jaguar \<Rightarrow> jaguar" where
  "moveq_n_rn op s = set_r (DREG op) (ucast (drop_bit 5 op AND 31)) s"

definition moveta_rn_rn :: "u16 \<Rightarrow> jaguar \<Rightarrow> jaguar" where
  "moveta_rn_rn op s = set_a (DREG op) (m_r s (SREG op)) s"

definition mtoi_rn_rn :: "u16 \<Rightarrow> jaguar \<Rightarrow> jaguar" where
  "mtoi_rn_rn op s =
     (let r1 = m_r s (SREG op)
      in set_r (DREG op) ((signed_drop_bit 8 r1 AND 0xff800000) OR (r1 AND 0x007fffff)) s)"

definition mult_rn_rn :: "u16 \<Rightarrow> jaguar \<Rightarrow> jaguar" where
  "mult_rn_rn op s =
     (let dreg = DREG op;
          r1 = m_r s (SREG op);
          r2 = m_r s dreg;
          res = (ucast (ucast r1 :: u16) :: u32) * ucast (ucast r2 :: u16);
          s = set_r dreg res s
      in SET_ZN res (CLR_ZN s))"

definition neg_rn :: "u16 \<Rightarrow> jaguar \<Rightarrow> jaguar" where
  "neg_rn op s =
     (let dreg = DREG op;
          r2 = m_r s dreg;
          res = - r2;
          s = set_r dreg res s
      in SET_ZNC_SUB 0 r2 res (CLR_ZNC s))"

definition nop :: "u16 \<Rightarrow> jaguar \<Rightarrow> jaguar" where
  "nop op s = s"

text \<open>The two loops of \<^verbatim>\<open>normi\<close>.\<close>

partial_function (option) normi_up :: "u32 \<Rightarrow> u32 \<Rightarrow> (u32 \<times> u32) option" where
  "normi_up r1 res =
     (if r1 AND 0xffc00000 = 0 then normi_up (push_bit 1 r1) (res - 1) else Some (r1, res))"

partial_function (option) normi_down :: "u32 \<Rightarrow> u32 \<Rightarrow> (u32 \<times> u32) option" where
  "normi_down r1 res =
     (if r1 AND 0xff800000 \<noteq> 0 then normi_down (drop_bit 1 r1) (res + 1) else Some (r1, res))"

definition normi_rn_rn :: "u16 \<Rightarrow> jaguar \<Rightarrow> jaguar option" where
  "normi_rn_rn op s =
     (let r1 = m_r s (SREG op);
          res = (0 :: u32)
      in Option.bind
           (if r1 \<noteq> 0
            then Option.bind (normi_up r1 res) (\<lambda>(r1, res). normi_down r1 res)
            else Some (r1, res))
           (\<lambda>(r1, res).
              (let s = set_r (DREG op) res s
               in Some (SET_ZN res (CLR_ZN s)))))"

definition not_rn :: "u16 \<Rightarrow> jaguar \<Rightarrow> jaguar" where
  "not_rn op s =
     (let dreg = DREG op;
          res = NOT (m_r s dreg);
          s = set_r dreg res s
      in SET_ZN res (CLR_ZN s))"

definition or_rn_rn :: "u16 \<Rightarrow> jaguar \<Rightarrow> jaguar" where
  "or_rn_rn op s =
     (let dreg = DREG op;
          r1 = m_r s (SREG op);
          r2 = m_r s dreg;
          res = r1 OR r2;
          s = set_r dreg res s
      in SET_ZN res (CLR_ZN s))"

definition pack_rn :: "u16 \<Rightarrow> jaguar \<Rightarrow> jaguar" where
  "pack_rn op s =
     (let dreg = DREG op;
          pack = drop_bit 5 op AND 31;
          r2 = m_r s dreg;
          res = (if pack = 0
                 then (drop_bit 10 r2 AND 0xf000) OR (drop_bit 5 r2 AND 0x0f00) OR (r2 AND 0xff)
                 else push_bit 10 (r2 AND 0xf000) OR push_bit 5 (r2 AND 0x0f00) OR (r2 AND 0xff))
      in set_r dreg res s)"

definition resmac_rn :: "u16 \<Rightarrow> jaguar \<Rightarrow> jaguar" where
  "resmac_rn op s = set_r (DREG op) (ucast (m_accum s)) s"

text \<open>
  C++ leaves a shift of a 32-bit value by 32 or more undefined; the rotate and quick
  shift handlers that can reach such a shift return \<open>None\<close> there.
\<close>

definition ror_rn_rn :: "u16 \<Rightarrow> jaguar \<Rightarrow> jaguar option" where
  "ror_rn_rn op s =
     (let dreg = DREG op;
          r1 = unat (m_r s (SREG op) AND 31);
          r2 = m_r s dreg
      in if 32 - r1 \<ge> 32 then None
         else (let res = drop_bit r1 r2 OR push_bit (32 - r1) r2;
                   s = set_r dreg res s;
                   s = SET_ZN res (CLR_ZNC s)
               in Some (set_FLAGS (FLAGS s OR (drop_bit 30 r2 AND 2)) s)))"

definition rorq_n_rn :: "u16 \<Rightarrow> jaguar \<Rightarrow> jaguar option" where
  "rorq_n_rn op s =
     (let dreg = DREG op;
          r1 = unat (QUICK op);
          r2 = m_r s dreg
      in if r1 \<ge> 32 then None
         else (let res = drop_bit r1 r2 OR push_bit (32 - r1) r2;
                   s = set_r dreg res s;
                   s = SET_ZN res (CLR_ZNC s)
               in Some (set_FLAGS (FLAGS s OR (drop_bit 30 r2 AND 2)) s)))"

definition sat8_rn :: "u16 \<Rightarrow> jaguar \<Rightarrow> jaguar" where
  "sat8_rn op s =
     (let dreg = DREG op;
          r2 = m_r s dreg;
          res = (if sint r2 < 0 then 0 else if sint r2 > 255 then 255 else r2);
          s = set_r dreg res s
      in SET_ZN res (CLR_ZN s))"

definition sat16_rn :: "u16 \<Rightarrow> jaguar \<Rightarrow> jaguar" where
  "sat16_rn op s =
     (let dreg = DREG op;
          r2 = m_r s dreg;
          res = (if sint r2 < 0 then 0 else if sint r2 > 65535 then 65535 else r2);
          s = set_r dreg res s
      in SET_ZN res (CLR_ZN s))"

definition sat16s_rn :: "u16 \<Rightarrow> jaguar \<Rightarrow> jaguar" where
  "sat16s_rn op s =
     (let dreg = DREG op;
          r2 = m_r s dreg;
          res = (if sint r2 < - 32768 then - 32768 else if sint r2 > 32767 then 32767 else r2);
          s = set_r dreg res s
      in SET_ZN res (CLR_ZN s))"

definition sat24_rn :: "u16 \<Rightarrow> jaguar \<Rightarrow> jaguar" where
  "sat24_rn op s =
     (let dreg = DREG op;
          r2 = m_r s dreg;
          res = (if sint r2 < 0 then 0 else if sint r2 > 16777215 then 16777215 else r2);
          s = set_r dreg res s
      in SET_ZN res (CLR_ZN s))"

definition sat32s_rn :: "u16 \<Rightarrow> jaguar \<Rightarrow> jaguar" where
  "sat32s_rn op s =
     (let dreg = DREG op;
          r2 = m_r s dreg;
          temp = (ucast (drop_bit 32 (m_accum s)) :: u32);
          res = (if sint temp < - 1 then 0x80000000 else if sint temp > 0 then 0x7fffffff else r2);
          s = set_r dreg res s
      in SET_ZN res (CLR_ZN s))"

definition sh_rn_rn :: "u16 \<Rightarrow> jaguar \<Rightarrow> jaguar" where
  "sh_rn_rn op s =
     (let dreg = DREG op;
          r1 = sint (m_r s (SREG op));
          r2 = m_r s dreg;
          s = CLR_ZNC s;
          (res, s) =
            (if r1 < 0
             then ((if r1 \<le> - 32 then 0 else push_bit (nat (- r1)) r2),
                   set_FLAGS (FLAGS s OR (drop_bit 30 r2 AND 2)) s)
             else ((if r1 \<ge> 32 then 0 else drop_bit (nat r1) r2),
                   set_FLAGS (FLAGS s OR (push_bit 1 r2 AND 2)) s));
          s = set_r dreg res s
      in SET_ZN res s)"

definition sha_rn_rn :: "u16 \<Rightarrow> jaguar \<Rightarrow> jaguar" where
  "sha_rn_rn op s =
     (let dreg = DREG op;
          r1 = sint (m_r s (SREG op));
          r2 = m_r s dreg;
          s = CLR_ZNC s;
          (res, s) =
            (if r1 < 0
             then ((if r1 \<le> - 32 then 0 else push_bit (nat (- r1)) r2),
                   set_FLAGS (FLAGS s OR (drop_bit 30 r2 AND 2)) s)
             else ((if r1 \<ge> 32 then signed_drop_bit 31 r2 else signed_drop_bit (nat r1) r2),
                   set_FLAGS (FLAGS s OR (push_bit 1 r2 AND 2)) s));
          s = set_r dreg res s
      in SET_ZN res s)"

definition sharq_n_rn :: "u16 \<Rightarrow> jaguar \<Rightarrow> jaguar option" where
  "sharq_n_rn op s =
     (let dreg = DREG op;
          r1 = unat (QUICK op);
          r2 = m_r s dreg
      in if r1 \<ge> 32 then None
         else (let res = signed_drop_bit r1 r2;
                   s = set_r dreg res s;
                   s = SET_ZN res (CLR_ZNC s)
               in Some (set_FLAGS (FLAGS s OR (push_bit 1 r2 AND 2)) s)))"

definition shlq_n_rn :: "u16 \<Rightarrow> jaguar \<Rightarrow> jaguar" where
  "shlq_n_rn op s =
     (let dreg = DREG op;
          r1 = QUICK op;
          r2 = m_r s dreg;
          res = push_bit (unat (32 - r1)) r2;
          s = set_r dreg res s;
          s = SET_ZN res (CLR_ZNC s)
      in set_FLAGS (FLAGS s OR (drop_bit 30 r2 AND 2)) s)"

definition shrq_n_rn :: "u16 \<Rightarrow> jaguar \<Rightarrow> jaguar option" where
  "shrq_n_rn op s =
     (let dreg = DREG op;
          r1 = unat (QUICK op);
          r2 = m_r s dreg
      in if r1 \<ge> 32 then None
         else (let res = drop_bit r1 r2;
                   s = set_r dreg res s;
                   s = SET_ZN res (CLR_ZNC s)
               in Some (set_FLAGS (FLAGS s OR (push_bit 1 r2 AND 2)) s)))"

definition store_rn_rn :: "u16 \<Rightarrow> jaguar \<Rightarrow> jaguar" where
  "store_rn_rn op s =
     (let r1 = m_r s (SREG op)
      in WRITELONG r1 (m_r s (DREG op)) s)"

definition store_rn_r14n :: "u16 \<Rightarrow> jaguar \<Rightarrow> jaguar" where
  "store_rn_r14n op s =
     (let r1 = QUICK op
      in WRITELONG (m_r s 14 + r1 * 4) (m_r s (DREG op)) s)"

definition store_rn_r15n :: "u16 \<Rightarrow> jaguar \<Rightarrow> jaguar" where
  "store_rn_r15n op s =
     (let r1 = QUICK op
      in WRITELONG (m_r s 15 + r1 * 4) (m_r s (DREG op)) s)"

definition store_rn_r14rn :: "u16 \<Rightarrow> jaguar \<Rightarrow> jaguar" where
  "store_rn_r14rn op s =
     (let r1 = m_r s (SREG op)
      in WRITELONG (m_r s 14 + r1) (m_r s (DREG op)) s)"

definition store_rn_r15rn :: "u16 \<Rightarrow> jaguar \<Rightarrow> jaguar" where
  "store_rn_r15rn op s =
     (let r1 = m_r s (SREG op)
      in WRITELONG (m_r s 15 + r1) (m_r s (DREG op)) s)"

definition storeb_rn_rn :: "u16 \<Rightarrow> jaguar \<Rightarrow> jaguar" where
  "storeb_rn_rn op s =
     (let r1 = m_r s (SREG op)
      in if r1 \<ge> m_internal_ram_start s \<and> r1 \<le> m_internal_ram_end s
         then WRITELONG (r1 AND NOT 3) (m_r s (DREG op)) s
         else WRITEBYTE r1 (ucast (m_r s (DREG op))) s)"

definition storew_rn_rn :: "u16 \<Rightarrow> jaguar \<Rightarrow> jaguar" where
  "storew_rn_rn op s =
     (let r1 = m_r s (SREG op)
      in if r1 \<ge> m_internal_ram_start s \<and> r1 \<le> m_internal_ram_end s
         then WRITELONG (r1 AND NOT 3) (m_r s (DREG op)) s
         else WRITEWORD r1 (ucast (m_r s (DREG op))) s)"

definition storep_rn_rn :: "u16 \<Rightarrow> jaguar \<Rightarrow> jaguar" where
  "storep_rn_rn op s =
     (let r1 = m_r s (SREG op)
      in if r1 \<ge> m_internal_ram_start s \<and> r1 \<le> m_internal_ram_end s
         then WRITELONG (r1 AND NOT 3) (m_r s (DREG op)) s
         else (let s = WRITELONG r1 (m_ctrl s G_HIDATA) s
               in WRITELONG (r1 + 4) (m_r s (DREG op)) s))"

definition sub_rn_rn :: "u16 \<Rightarrow> jaguar \<Rightarrow> jaguar" where
  "sub_rn_rn op s =
     (let dreg = DREG op;
          r1 = m_r s (SREG op);
          r2 = m_r s dreg;
          res = r2 - r1;
          s = set_r dreg res s
      in SET_ZNC_SUB r2 r1 res (CLR_ZNC s))"

definition subc_rn_rn :: "u16 \<Rightarrow> jaguar \<Rightarrow> jaguar" where
  "subc_rn_rn op s =
     (let dreg = DREG op;
          r1 = m_r s (SREG op);
          r2 = m_r s dreg;
          c = drop_bit 1 (FLAGS s) AND 1;
          res = r2 - r1 - c;
          s = set_r dreg res s
      in SET_ZNC_SUB r2 (r1 + c) res (CLR_ZNC s))"

definition subq_n_rn :: "u16 \<Rightarrow> jaguar \<Rightarrow> jaguar" where
  "subq_n_rn op s =
     (let dreg = DREG op;
          r1 = QUICK op;
          r2 = m_r s dreg;
          res = r2 - r1;
          s = set_r dreg res s
      in SET_ZNC_SUB r2 r1 res (CLR_ZNC s))"

definition subqmod_n_rn :: "u16 \<Rightarrow> jaguar \<Rightarrow> jaguar" where
  "subqmod_n_rn op s =
     (let dreg = DREG op;
          r1 = QUICK op;
          r2 = m_r s dreg;
          res = r2 - r1;
          res = (res AND NOT (m_ctrl s D_MOD)) OR (r2 AND NOT (m_ctrl s D_MOD));
          s = set_r dreg res s
      in SET_ZNC_SUB r2 r1 res (CLR_ZNC s))"

definition subqt_n_rn :: "u16 \<Rightarrow> jaguar \<Rightarrow> jaguar" where
  "subqt_n_rn op s =
     (let dreg = DREG op;
          r1 = QUICK op;
          r2 = m_r s dreg;
          res = r2 - r1
      in set_r dreg res s)"

definition xor_rn_rn :: "u16 \<Rightarrow> jaguar \<Rightarrow> jaguar" where
  "xor_rn_rn op s =
     (let dreg = DREG op;
          r1 = m_r s (SREG op);
          r2 = m_r s dreg;
          res = r1 XOR r2;
          s = set_r dreg res s
      in SET_ZN res (CLR_ZN s))"

subsection \<open>The control register port\<close>

text \<open>
  Modelled from the spec: \<^verbatim>\<open>COMBINE_DATA\<close> is a macro of the emulator framework;
  the spec has masked writes apply only the bits selected by the mask.
\<close>

definition COMBINE_DATA :: "u32 \<Rightarrow> u32 \<Rightarrow> u32 \<Rightarrow> u32" where
  "COMBINE_DATA var data mem_mask = (var AND NOT mem_mask) OR (data AND mem_mask)"

definition jaguargpu_ctrl_r :: "nat \<Rightarrow> jaguar \<Rightarrow> u32" where
  "jaguargpu_ctrl_r offset s =
     (let res = m_ctrl s offset
      in if offset = G_CTRL then res OR push_bit 12 (ucast (m_version s AND 0xf)) else res)"

definition jaguardsp_ctrl_r :: "nat \<Rightarrow> jaguar \<Rightarrow> u32" where
  "jaguardsp_ctrl_r offset s =
     (let res = m_ctrl s offset
      in if offset = D_CTRL then res OR push_bit 12 (ucast (m_version s AND 0xf)) else res)"

text \<open>
  The \<^verbatim>\<open>G_CTRL\<close> case of the write port, shared by both variants: the run bit, the
  interrupt request to the host and the forced interrupt 0.
\<close>

definition ctrl_w_ctrl :: "nat \<Rightarrow> u32 \<Rightarrow> u32 \<Rightarrow> jaguar \<Rightarrow> jaguar" where
  "ctrl_w_ctrl offset oldval newval s =
     (let s = set_ctrl offset newval s;
          s = (if (oldval XOR newval) AND 0x01 \<noteq> 0
               then s\<lparr>host_calls :=
                      YIELD #
                      SET_HALT_LINE (if newval AND 1 \<noteq> 0 then CLEAR_LINE else ASSERT_LINE) #
                      host_calls s\<rparr>
               else s);
          s = (if newval AND 0x02 \<noteq> 0
               then set_ctrl offset (m_ctrl s offset AND NOT 0x02)
                      (s\<lparr>host_calls := CPU_INTERRUPT ASSERT_LINE # host_calls s\<rparr>)
               else s);
          s = (if newval AND 0x04 \<noteq> 0
               then (let s = set_ctrl G_CTRL (m_ctrl s G_CTRL OR push_bit 6 1) s;
                         s = set_ctrl offset (m_ctrl s offset AND NOT 0x04) s
                     in check_irqs s)
               else s)
      in s)"

definition jaguargpu_ctrl_w :: "nat \<Rightarrow> u32 \<Rightarrow> u32 \<Rightarrow> jaguar \<Rightarrow> jaguar" where
  "jaguargpu_ctrl_w offset data mem_mask s =
     (let oldval = m_ctrl s offset;
          newval = COMBINE_DATA oldval data mem_mask
      in if offset = G_FLAGS
         then (let s = set_ctrl offset
                         (newval AND (ZFLAG OR CFLAG OR NFLAG OR EINT04FLAGS OR RPAGEFLAG)) s;
                   s = (if newval AND IFLAG \<noteq> 0
                        then set_ctrl offset (m_ctrl s offset OR (oldval AND IFLAG)) s
                        else s);
                   s = set_ctrl G_CTRL
                         (m_ctrl s G_CTRL AND NOT (drop_bit 3 (newval AND CINT04FLAGS))) s;
                   s = update_register_banks s
               in check_irqs s)
         else if offset = G_MTXC \<or> offset = G_MTXA then set_ctrl offset newval s
         else if offset = G_END then set_ctrl offset newval s
         else if offset = G_PC then set_PC (newval AND 0xffffff) s
         else if offset = G_CTRL then ctrl_w_ctrl offset oldval newval s
         else if offset = G_HIDATA \<or> offset = G_DIVCTRL then set_ctrl offset newval s
         else s)"

definition jaguardsp_ctrl_w :: "nat \<Rightarrow> u32 \<Rightarrow> u32 \<Rightarrow> jaguar \<Rightarrow> jaguar" where
  "jaguardsp_ctrl_w offset data mem_mask s =
     (let oldval = m_ctrl s offset;
          newval = COMBINE_DATA oldval data mem_mask
      in if offset = D_FLAGS
         then (let s = set_ctrl offset
                         (newval AND (ZFLAG OR CFLAG OR NFLAG OR EINT04FLAGS OR EINT5FLAG OR
                                      RPAGEFLAG)) s;
                   s = (if newval AND IFLAG \<noteq> 0
                        then set_ctrl offset (m_ctrl s offset OR (oldval AND IFLAG)) s
                        else s);
                   s = set_ctrl D_CTRL
                         (m_ctrl s D_CTRL AND NOT (drop_bit 3 (newval AND CINT04FLAGS))) s;
                   s = set_ctrl D_CTRL
                         (m_ctrl s D_CTRL AND NOT (drop_bit 1 (newval AND CINT5FLAG))) s;
                   s = update_register_banks s
               in check_irqs s)
         else if offset = D_MTXC \<or> offset = D_MTXA then set_ctrl offset newval s
         else if offset = D_END then set_ctrl offset newval s
         else if offset = D_PC then set_PC (newval AND 0xffffff) s
         else if offset = D_CTRL then ctrl_w_ctrl offset oldval newval s
         else if offset = D_MOD \<or> offset = D_DIVCTRL then set_ctrl offset newval s
         else s)"

subsection \<open>Function tables and dispatch\<close>

text \<open>
  The entries of the two operation tables are pointers to member functions; a pointer is
  a value of \<open>op_func\<close> and \<open>call f op s\<close> is the call \<^verbatim>\<open>(this->*f)(op)\<close>.
\<close>

datatype (plugins only: ) op_func =
    OP_add_rn_rn | OP_addc_rn_rn | OP_addq_n_rn | OP_addqt_n_rn
  | OP_sub_rn_rn | OP_subc_rn_rn | OP_subq_n_rn | OP_subqt_n_rn
  | OP_neg_rn | OP_and_rn_rn | OP_or_rn_rn | OP_xor_rn_rn
  | OP_not_rn | OP_btst_n_rn | OP_bset_n_rn | OP_bclr_n_rn
  | OP_mult_rn_rn | OP_imult_rn_rn | OP_imultn_rn_rn | OP_resmac_rn
  | OP_imacn_rn_rn | OP_div_rn_rn | OP_abs_rn | OP_sh_rn_rn
  | OP_shlq_n_rn | OP_shrq_n_rn | OP_sha_rn_rn | OP_sharq_n_rn
  | OP_ror_rn_rn | OP_rorq_n_rn | OP_cmp_rn_rn | OP_cmpq_n_rn
  | OP_sat8_rn | OP_sat16_rn | OP_move_rn_rn | OP_moveq_n_rn
  | OP_moveta_rn_rn | OP_movefa_rn_rn | OP_movei_n_rn | OP_loadb_rn_rn
  | OP_loadw_rn_rn | OP_load_rn_rn | OP_loadp_rn_rn | OP_load_r14n_rn
  | OP_load_r15n_rn | OP_storeb_rn_rn | OP_storew_rn_rn | OP_store_rn_rn
  | OP_storep_rn_rn | OP_store_rn_r14n | OP_store_rn_r15n | OP_move_pc_rn
  | OP_jump_cc_rn | OP_jr_cc_n | OP_mmult_rn_rn | OP_mtoi_rn_rn
  | OP_normi_rn_rn | OP_nop | OP_load_r14rn_rn | OP_load_r15rn_rn
  | OP_store_rn_r14rn | OP_store_rn_r15rn | OP_sat24_rn | OP_pack_rn
  | OP_subqmod_n_rn | OP_sat16s_rn | OP_sat32s_rn | OP_mirror_rn
  | OP_illegal | OP_addqmod_n_rn

definition gpu_op_table :: "op_func list" where
  "gpu_op_table = [
      OP_add_rn_rn, OP_addc_rn_rn, OP_addq_n_rn, OP_addqt_n_rn,
      OP_sub_rn_rn, OP_subc_rn_rn, OP_subq_n_rn, OP_subqt_n_rn,
      OP_neg_rn, OP_and_rn_rn, OP_or_rn_rn, OP_xor_rn_rn,
      OP_not_rn, OP_btst_n_rn, OP_bset_n_rn, OP_bclr_n_rn,
      OP_mult_rn_rn, OP_imult_rn_rn, OP_imultn_rn_rn, OP_resmac_rn,
      OP_imacn_rn_rn, OP_div_rn_rn, OP_abs_rn, OP_sh_rn_rn,
      OP_shlq_n_rn, OP_shrq_n_rn, OP_sha_rn_rn, OP_sharq_n_rn,
      OP_ror_rn_rn, OP_rorq_n_rn, OP_cmp_rn_rn, OP_cmpq_n_rn,
      OP_sat8_rn, OP_sat16_rn, OP_move_rn_rn, OP_moveq_n_rn,
      OP_moveta_rn_rn, OP_movefa_rn_rn, OP_movei_n_rn, OP_loadb_rn_rn,
      OP_loadw_rn_rn, OP_load_rn_rn, OP_loadp_rn_rn, OP_load_r14n_rn,
      OP_load_r15n_rn, OP_storeb_rn_rn, OP_storew_rn_rn, OP_store_rn_rn,
      OP_storep_rn_rn, OP_store_rn_r14n, OP_store_rn_r15n, OP_move_pc_rn,
      OP_jump_cc_rn, OP_jr_cc_n, OP_mmult_rn_rn, OP_mtoi_rn_rn,
      OP_normi_rn_rn, OP_nop, OP_load_r14rn_rn, OP_load_r15rn_rn,
      OP_store_rn_r14rn, OP_store_rn_r15rn, OP_sat24_rn, OP_pack_rn]"

definition dsp_op_table :: "op_func list" where
  "dsp_op_table = [
      OP_add_rn_rn, OP_addc_rn_rn, OP_addq_n_rn, OP_addqt_n_rn,
      OP_sub_rn_rn, OP_subc_rn_rn, OP_subq_n_rn, OP_subqt_n_rn,
      OP_neg_rn, OP_and_rn_rn, OP_or_rn_rn, OP_xor_rn_rn,
      OP_not_rn, OP_btst_n_rn, OP_bset_n_rn, OP_bclr_n_rn,
      OP_mult_rn_rn, OP_imult_rn_rn, OP_imultn_rn_rn, OP_resmac_rn,
      OP_imacn_rn_rn, OP_div_rn_rn, OP_abs_rn, OP_sh_rn_rn,
      OP_shlq_n_rn, OP_shrq_n_rn, OP_sha_rn_rn, OP_sharq_n_rn,
      OP_ror_rn_rn, OP_rorq_n_rn, OP_cmp_rn_rn, OP_cmpq_n_rn,
      OP_subqmod_n_rn, OP_sat16s_rn, OP_move_rn_rn, OP_moveq_n_rn,
      OP_moveta_rn_rn, OP_movefa_rn_rn, OP_movei_n_rn, OP_loadb_rn_rn,
      OP_loadw_rn_rn, OP_load_rn_rn, OP_sat32s_rn, OP_load_r14n_rn,
      OP_load_r15n_rn, OP_storeb_rn_rn, OP_storew_rn_rn, OP_store_rn_rn,
      OP_mirror_rn, OP_store_rn_r14n, OP_store_rn_r15n, OP_move_pc_rn,
      OP_jump_cc_rn, OP_jr_cc_n, OP_mmult_rn_rn, OP_mtoi_rn_rn,
      OP_normi_rn_rn, OP_nop, OP_load_r14rn_rn, OP_load_r15rn_rn,
      OP_store_rn_r14rn, OP_store_rn_r15rn, OP_illegal, OP_addqmod_n_rn]"

text \<open>
  The member \<^verbatim>\<open>m_table\<close> is set once, by the constructor, from \<^verbatim>\<open>isdsp\<close>; it is
  read here off \<open>m_isdsp\<close>, which no function changes after construction.
\<close>

definition m_table :: "jaguar \<Rightarrow> op_func list" where
  "m_table s = (if m_isdsp s then dsp_op_table else gpu_op_table)"

lemma jr_cc_n_mono [partial_function_mono]:
  assumes "\<And>op s. mono_option (\<lambda>f. invoke f op s)"
  shows "mono_option (\<lambda>f. jr_cc_n (invoke f) op s)"
  unfolding jr_cc_n_def Let_def by (intro partial_function_mono assms)

lemma jump_cc_rn_mono [partial_function_mono]:
  assumes "\<And>op s. mono_option (\<lambda>f. invoke f op s)"
  shows "mono_option (\<lambda>f. jump_cc_rn (invoke f) op s)"
  unfolding jump_cc_rn_def Let_def by (intro partial_function_mono assms)

partial_function (option) call :: "op_func \<Rightarrow> u16 \<Rightarrow> jaguar \<Rightarrow> jaguar option" where
  "call f op s =
     (case f of
        OP_add_rn_rn \<Rightarrow> Some (add_rn_rn op s)
      | OP_addc_rn_rn \<Rightarrow> Some (addc_rn_rn op s)
      | OP_addq_n_rn \<Rightarrow> Some (addq_n_rn op s)
      | OP_addqt_n_rn \<Rightarrow> Some (addqt_n_rn op s)
      | OP_sub_rn_rn \<Rightarrow> Some (sub_rn_rn op s)
      | OP_subc_rn_rn \<Rightarrow> Some (subc_rn_rn op s)
      | OP_subq_n_rn \<Rightarrow> Some (subq_n_rn op s)
      | OP_subqt_n_rn \<Rightarrow> Some (subqt_n_rn op s)
      | OP_neg_rn \<Rightarrow> Some (neg_rn op s)
      | OP_and_rn_rn \<Rightarrow> Some (and_rn_rn op s)
      | OP_or_rn_rn \<Rightarrow> Some (or_rn_rn op s)
      | OP_xor_rn_rn \<Rightarrow> Some (xor_rn_rn op s)
      | OP_not_rn \<Rightarrow> Some (not_rn op s)
      | OP_btst_n_rn \<Rightarrow> Some (btst_n_rn op s)
      | OP_bset_n_rn \<Rightarrow> Some (bset_n_rn op s)
      | OP_bclr_n_rn \<Rightarrow> Some (bclr_n_rn op s)
      | OP_mult_rn_rn \<Rightarrow> Some (mult_rn_rn op s)
      | OP_imult_rn_rn \<Rightarrow> Some (imult_rn_rn op s)
      | OP_imultn_rn_rn \<Rightarrow> imultn_rn_rn op s
      | OP_resmac_rn \<Rightarrow> Some (resmac_rn op s)
      | OP_imacn_rn_rn \<Rightarrow> Some (imacn_rn_rn op s)
      | OP_div_rn_rn \<Rightarrow> Some (div_rn_rn op s)
      | OP_abs_rn \<Rightarrow> Some (abs_rn op s)
      | OP_sh_rn_rn \<Rightarrow> Some (sh_rn_rn op s)
      | OP_shlq_n_rn \<Rightarrow> Some (shlq_n_rn op s)
      | OP_shrq_n_rn \<Rightarrow> shrq_n_rn op s
      | OP_sha_rn_rn \<Rightarrow> Some (sha_rn_rn op s)
      | OP_sharq_n_rn \<Rightarrow> sharq_n_rn op s
      | OP_ror_rn_rn \<Rightarrow> ror_rn_rn op s
      | OP_rorq_n_rn \<Rightarrow> rorq_n_rn op s
      | OP_cmp_rn_rn \<Rightarrow> Some (cmp_rn_rn op s)
      | OP_cmpq_n_rn \<Rightarrow> Some (cmpq_n_rn op s)
      | OP_sat8_rn \<Rightarrow> Some (sat8_rn op s)
      | OP_sat16_rn \<Rightarrow> Some (sat16_rn op s)
      | OP_move_rn_rn \<Rightarrow> Some (move_rn_rn op s)
      | OP_moveq_n_rn \<Rightarrow> Some (moveq_n_rn op s)
      | OP_moveta_rn_rn \<Rightarrow> Some (moveta_rn_rn op s)
      | OP_movefa_rn_rn \<Rightarrow> Some (movefa_rn_rn op s)
      | OP_movei_n_rn \<Rightarrow> Some (movei_n_rn op s)
      | OP_loadb_rn_rn \<Rightarrow> Some (loadb_rn_rn op s)
      | OP_loadw_rn_rn \<Rightarrow> Some (loadw_rn_rn op s)
      | OP_load_rn_rn \<Rightarrow> Some (load_rn_rn op s)
      | OP_loadp_rn_rn \<Rightarrow> Some (loadp_rn_rn op s)
      | OP_load_r14n_rn \<Rightarrow> Some (load_r14n_rn op s)
      | OP_load_r15n_rn \<Rightarrow> Some (load_r15n_rn op s)
      | OP_storeb_rn_rn \<Rightarrow> Some (storeb_rn_rn op s)
      | OP_storew_rn_rn \<Rightarrow> Some (storew_rn_rn op s)
      | OP_store_rn_rn \<Rightarrow> Some (store_rn_rn op s)
      | OP_storep_rn_rn \<Rightarrow> Some (storep_rn_rn op s)
      | OP_store_rn_r14n \<Rightarrow> Some (store_rn_r14n op s)
      | OP_store_rn_r15n \<Rightarrow> Some (store_rn_r15n op s)
      | OP_move_pc_rn \<Rightarrow> Some (move_pc_rn op s)
      | OP_jump_cc_rn \<Rightarrow> jump_cc_rn (\<lambda>op. call (m_table s ! unat (drop_bit 10 op)) op) op s
      | OP_jr_cc_n \<Rightarrow> jr_cc_n (\<lambda>op. call (m_table s ! unat (drop_bit 10 op)) op) op s
      | OP_mmult_rn_rn \<Rightarrow> mmult_rn_rn op s
      | OP_mtoi_rn_rn \<Rightarrow> Some (mtoi_rn_rn op s)
      | OP_normi_rn_rn \<Rightarrow> normi_rn_rn op s
      | OP_nop \<Rightarrow> Some (nop op s)
      | OP_load_r14rn_rn \<Rightarrow> Some (load_r14rn_rn op s)
      | OP_load_r15rn_rn \<Rightarrow> Some (load_r15rn_rn op s)
      | OP_store_rn_r14rn \<Rightarrow> Some (store_rn_r14rn op s)
      | OP_store_rn_r15rn \<Rightarrow> Some (store_rn_r15rn op s)
      | OP_sat24_rn \<Rightarrow> Some (sat24_rn op s)
      | OP_pack_rn \<Rightarrow> Some (pack_rn op s)
      | OP_subqmod_n_rn \<Rightarrow> Some (subqmod_n_rn op s)
      | OP_sat16s_rn \<Rightarrow> Some (sat16s_rn op s)
      | OP_sat32s_rn \<Rightarrow> Some (sat32s_rn op s)
      | OP_mirror_rn \<Rightarrow> Some (mirror_rn op s)
      | OP_illegal \<Rightarrow> Some (illegal op s)
      | OP_addqmod_n_rn \<Rightarrow> Some (addqmod_n_rn op s))"

subsection \<open>Core execution loop\<close>

text \<open>
  One pass through the body of the \<^verbatim>\<open>do ... while\<close> loop of
  \<^verbatim>\<open>execute_run\<close>, for the operation table of the variant, and the loop itself.
\<close>

definition execute_one :: "op_func list \<Rightarrow> jaguar \<Rightarrow> jaguar option" where
  "execute_one table s =
     (let s = s\<lparr>m_ppc := PC s\<rparr>;
          op = ROPCODE s (PC s);
          s = set_PC (PC s + 2) s
      in Option.bind (call (table ! unat (drop_bit 10 op)) op s)
           (\<lambda>s. Some (s\<lparr>m_icount := m_icount s - 1\<rparr>)))"

definition loop_again :: "jaguar \<Rightarrow> bool" where
  "loop_again s \<longleftrightarrow> m_icount s > 0 \<or> m_icount s = m_bankswitch_icount s"

partial_function (option) execute_loop :: "op_func list \<Rightarrow> jaguar \<Rightarrow> jaguar option" where
  "execute_loop table s =
     Option.bind (execute_one table s)
       (\<lambda>s. if loop_again s then execute_loop table s else Some s)"

definition jaguargpu_execute_run :: "jaguar \<Rightarrow> jaguar option" where
  "jaguargpu_execute_run s =
     (if m_ctrl s G_CTRL AND 1 = 0 then Some (s\<lparr>m_icount := 0\<rparr>)
      else (let s = check_irqs s;
                s = s\<lparr>m_bankswitch_icount := - 1000\<rparr>
            in execute_loop gpu_op_table s))"

definition jaguardsp_execute_run :: "jaguar \<Rightarrow> jaguar option" where
  "jaguardsp_execute_run s =
     (if m_ctrl s G_CTRL AND 1 = 0 then Some (s\<lparr>m_icount := 0\<rparr>)
      else (let s = check_irqs s;
                s = s\<lparr>m_bankswitch_icount := - 1000\<rparr>
            in execute_loop dsp_op_table s))"

subsection \<open>Notions used in the statements\<close>

text \<open>
  \<open>mac_product s w\<close> is the product, as an integer, of the two register operands of
  the instruction word \<open>w\<close> read as signed 16-bit values; \<open>word_at s i\<close> is the
  \<open>i\<close>-th instruction word counted from the program counter.
\<close>

definition mac_product :: "jaguar \<Rightarrow> u16 \<Rightarrow> int" where
  "mac_product s w =
     sint (ucast (m_r s (SREG w)) :: u16) * sint (ucast (m_r s (DREG w)) :: u16)"

definition word_at :: "jaguar \<Rightarrow> nat \<Rightarrow> u16" where
  "word_at s i = ROPCODE s (PC s + 2 * of_nat i)"

text \<open>
  \<open>budget_frame s s'\<close>: from \<open>s\<close> to \<open>s'\<close> the remaining cycle budget has not grown.
\<close>

definition budget_frame :: "jaguar \<Rightarrow> jaguar \<Rightarrow> bool" where
  "budget_frame s s' \<longleftrightarrow> m_icount s' \<le> m_icount s"

subsection \<open>States for evaluation\<close>

text \<open>
  \<open>blank\<close> is an object with every member zero; \<open>gpu0\<close> and \<open>dsp0\<close> are the two
  variants after construction, \<^verbatim>\<open>device_start\<close> and \<^verbatim>\<open>device_reset\<close>.
\<close>

definition blank :: jaguar where
  "blank =
     \<lparr>m_r = (\<lambda>_. 0), m_a = (\<lambda>_. 0), m_b0 = PTR_R, m_b1 = PTR_A, m_ctrl = (\<lambda>_. 0),
      m_ppc = 0, m_accum = 0, m_icount = 0, m_bankswitch_icount = 0, m_version = 0,
      m_isdsp = False, m_internal_ram_start = 0, m_internal_ram_end = 0,
      m_program = \<lparr>contents = (\<lambda>_. 0), accesses = []\<rparr>, host_calls = []\<rparr>"

definition gpu0 :: jaguar where
  "gpu0 = device_reset (device_start (jaguargpu_cpu_device blank))"

definition dsp0 :: jaguar where
  "dsp0 = device_reset (device_start (jaguardsp_cpu_device blank))"

definition modulo_buffer :: jaguar where
  "modulo_buffer = set_ctrl D_MOD 0xfffffff8 (set_r 1 0x1007 dsp0)"

text \<open>
  \<open>mac_program\<close>: a GPU with \<^verbatim>\<open>imultn r1,r2\<close>, \<^verbatim>\<open>imacn r3,r4\<close>,
  \<^verbatim>\<open>imacn r5,r6\<close>, \<^verbatim>\<open>resmac r7\<close> at address 0. \<open>after_swap\<close>: a GPU with
  \<open>0x2000\<close> in register 1 of bank 0 and \<open>0x1000\<close> in register 1 of bank 1, on which a
  write of the page bit to the flags register at budget 1 has swapped the banks (as a
  store to the flags register does from inside a handler), after the run loop has
  counted the storing instruction; the word at the program counter is
  \<^verbatim>\<open>add r0,r0\<close>.
\<close>

definition mac_program :: jaguar where
  "mac_program =
     (gpu0\<lparr>m_r := (\<lambda>_. 0)(1 := 3, 2 := 0xffff, 3 := 4, 4 := 5, 5 := 0x8000, 6 := 2),
           m_program := \<lparr>contents = (\<lambda>_. 0)(0 := 0x48, 1 := 0x22, 2 := 0x50, 3 := 0x64,
                                                4 := 0x50, 5 := 0xa6, 6 := 0x4c, 7 := 0x07),
                         accesses = []\<rparr>\<rparr>)"

definition after_swap :: jaguar where
  "after_swap =
     (jaguargpu_ctrl_w G_FLAGS RPAGEFLAG 0xffffffff
        (gpu0\<lparr>m_r := (\<lambda>_. 0)(1 := 0x2000), m_a := (\<lambda>_. 0)(1 := 0x1000), m_icount := 1\<rparr>))
     \<lparr>m_icount := 0\<rparr>"

lemmas start_defs =
  gpu0_def dsp0_def blank_def device_reset_def device_start_def jaguargpu_cpu_device_def
  jaguardsp_cpu_device_def jaguar_cpu_device_def

section \<open>Properties\<close>

subsection \<open>Auxiliary facts\<close>

lemma convert_zero_nth:
  "q < 32 \<Longrightarrow> convert_zero ! q = (if q = 0 then 32 else of_nat q)"
  unfolding convert_zero_def
  by (auto simp: less_Suc_eq numeral_eq_Suc nth_Cons')

lemma quick_value:
  "q < 32 \<Longrightarrow> unat (convert_zero ! q) = (if q = 0 then 32 else q)"
  by (auto simp: convert_zero_nth unat_of_nat)

lemma quick_shift_amount:
  "q < 32 \<Longrightarrow> unat (32 - convert_zero ! q) = (if q = 0 then 0 else 32 - q)"
  by (auto simp: convert_zero_nth unat_sub word_le_nat_alt unat_of_nat)

lemma quick_field_less: "unat (drop_bit 5 (op :: u16) AND 31) < 32"
proof -
  have "drop_bit 5 op AND 31 \<le> 31" by (rule word_and_le1)
  then show ?thesis by (simp add: word_le_nat_alt)
qed

lemma bit_int_4: "bit (4 :: int) n \<longleftrightarrow> n = 2"
  using bit_exp_iff [where ?'a = int, of 2 n] by simp

lemma bit_int_2: "bit (2 :: int) n \<longleftrightarrow> n = 1"
  using bit_exp_iff [where ?'a = int, of 1 n] by simp

lemma sign_to_N: "drop_bit 29 (r :: u32) AND 4 = (if bit r 31 then 4 else 0)"
  by (rule bit_word_eqI) (auto simp: bit_simps bit_int_4)

lemma sign_to_C: "drop_bit 30 (r :: u32) AND 2 = (if bit r 31 then 2 else 0)"
  by (rule bit_word_eqI) (auto simp: bit_simps bit_int_2)

lemma unat_push_bit_u32: "unat (push_bit n (w :: u32)) = unat w * 2 ^ n mod 2 ^ 32"
  by (simp only: unsigned_push_bit_eq) (simp add: take_bit_eq_mod push_bit_eq_mult)

lemmas flag_ops =
  set_r_def SET_ZN_def SET_Z_def SET_N_def CLR_ZNC_def CLR_ZN_def CLR_Z_def set_FLAGS_def
  set_ctrl_def FLAGS_def SET_ZNC_ADD_def SET_ZNC_SUB_def SET_C_ADD_def SET_C_SUB_def

subsection \<open>The quick left shift\<close>

text \<open>
  Claim C10. For every register value \<open>v\<close> and every 5-bit quick field \<open>q\<close>,
  \<^verbatim>\<open>shlq\<close> sets the destination register to \<open>v\<close> shifted left by 32 minus the
  quick value \<^verbatim>\<open>convert_zero[q]\<close>, modulo \<open>2^32\<close>, not by the quick value itself:
  a field of 0 (quick value 32) shifts by 0 and a field of 1 shifts by 31. The carry
  flag receives bit 31 of the original value, Z and N are set from the result, and
  nothing else changes.
\<close>

theorem shlq_n_rn_shift:
  "shlq_n_rn op s =
     (let v = m_r s (DREG op);
          q = unat (drop_bit 5 op AND 31);
          res = push_bit (32 - unat (convert_zero ! q)) v
      in s\<lparr>m_r := (m_r s)(DREG op := res),
           m_ctrl := (m_ctrl s)(G_FLAGS :=
             (FLAGS s AND NOT 7) OR (if bit res 31 then 4 else 0) OR
             (if res = 0 then 1 else 0) OR (if bit v 31 then 2 else 0))\<rparr>)
   \<and> 32 - unat (convert_zero ! unat (drop_bit 5 op AND 31)) =
       (if drop_bit 5 op AND 31 = 0 then 0 else 32 - unat (drop_bit 5 op AND 31))
   \<and> unat (m_r (shlq_n_rn op s) (DREG op)) =
       unat (m_r s (DREG op)) * 2 ^ (32 - unat (convert_zero ! unat (drop_bit 5 op AND 31)))
         mod 2 ^ 32"
proof -
  let ?q = "unat (drop_bit 5 op AND 31)"
  have q: "?q < 32" by (rule quick_field_less)
  have amount: "unat (32 - convert_zero ! ?q) = 32 - unat (convert_zero ! ?q)"
    by (simp only: quick_shift_amount [OF q] quick_value [OF q]) simp
  have state: "shlq_n_rn op s =
     (let v = m_r s (DREG op);
          q = unat (drop_bit 5 op AND 31);
          res = push_bit (32 - unat (convert_zero ! q)) v
      in s\<lparr>m_r := (m_r s)(DREG op := res),
           m_ctrl := (m_ctrl s)(G_FLAGS :=
             (FLAGS s AND NOT 7) OR (if bit res 31 then 4 else 0) OR
             (if res = 0 then 1 else 0) OR (if bit v 31 then 2 else 0))\<rparr>)"
    by (simp add: shlq_n_rn_def Let_def QUICK_def flag_ops flag_defs sign_to_N sign_to_C
        amount or.assoc)
  have field: "32 - unat (convert_zero ! ?q) =
       (if drop_bit 5 op AND 31 = 0 then 0 else 32 - ?q)"
    by (simp only: quick_value [OF q] unat_eq_0 [symmetric]) simp
  have shifted: "unat (m_r (shlq_n_rn op s) (DREG op)) =
       unat (m_r s (DREG op)) * 2 ^ (32 - unat (convert_zero ! ?q)) mod 2 ^ 32"
    by (simp add: state Let_def unat_push_bit_u32)
  from state field shifted show ?thesis by blast
qed

theorem shlq_n_rn_shift_witness:
  "m_r (shlq_n_rn 0x6021 (set_r 1 3 gpu0)) 1 = 0x80000000 \<and>
   m_r (shlq_n_rn 0x6001 (set_r 1 3 gpu0)) 1 = 3 \<and>
   FLAGS (shlq_n_rn 0x6021 (set_r 1 3 gpu0)) = 4"
  using shlq_n_rn_shift [of "0x6021" "set_r 1 3 gpu0"]
        shlq_n_rn_shift [of "0x6001" "set_r 1 3 gpu0"]
  by (simp add: Let_def DREG_def convert_zero_def set_r_def FLAGS_def start_defs G_FLAGS_def)

subsection \<open>Modulo addition and subtraction\<close>

text \<open>
  What \<^verbatim>\<open>addqmod\<close> and \<^verbatim>\<open>subqmod\<close> leave in the destination register: the
  sum (difference) and the original value are both masked with the complement of the
  modulo register and then joined, so every bit that is set in the modulo register is
  cleared in the result.
\<close>

lemma addqmod_n_rn_result:
  "m_r (addqmod_n_rn op s) (DREG op) =
     ((m_r s (DREG op) + QUICK op) OR m_r s (DREG op)) AND NOT (m_ctrl s D_MOD)"
  by (simp add: addqmod_n_rn_def Let_def flag_ops bit.conj_disj_distrib2)

lemma subqmod_n_rn_result:
  "m_r (subqmod_n_rn op s) (DREG op) =
     ((m_r s (DREG op) - QUICK op) OR m_r s (DREG op)) AND NOT (m_ctrl s D_MOD)"
  by (simp add: subqmod_n_rn_def Let_def flag_ops bit.conj_disj_distrib2)

text \<open>
  Claim C9. \<^verbatim>\<open>addqmod\<close> (and \<^verbatim>\<open>subqmod\<close>) on the DSP should leave in the
  destination register the 32-bit sum (difference) of the register and the quick value,
  merged with the original value under the modulo mask: the high bits kept from the
  original value, the other bits taken from the computed result. The code does not do
  this. With the modulo register \<open>0xfffffff8\<close> (an eight-byte circular buffer) and the
  register at \<open>0x1007\<close>, adding 1 should give \<open>0x1000\<close> and subtracting 1 should
  give \<open>0x1006\<close>; both handlers leave 7, the high bits of the original value lost.
\<close>

theorem addqmod_subqmod_drop_high_bits:
  "m_ctrl modulo_buffer D_MOD = 0xfffffff8 \<and> m_r modulo_buffer 1 = 0x1007 \<and>
   m_r (addqmod_n_rn 0xfc21 modulo_buffer) 1 = 7 \<and>
   m_r (subqmod_n_rn 0x8021 modulo_buffer) 1 = 7"
  by (simp add: modulo_buffer_def addqmod_n_rn_def subqmod_n_rn_def Let_def flag_ops
      DREG_def QUICK_def convert_zero_def D_MOD_def G_FLAGS_def start_defs)

subsection \<open>Division\<close>

lemma unat_u32_less: "unat (w :: u32) < 4294967296"
  using unsigned_less [of w, where ?'a = nat] by simp

lemma unat_ucast_u64: "unat (ucast (w :: u32) :: u64) = unat w"
proof -
  have "unat w < 2 ^ 64" using unat_u32_less [of w] by simp
  then show ?thesis
    by (simp only: unsigned_ucast_eq) (simp add: take_bit_nat_eq_self)
qed

lemma unat_fixed_point: "unat (push_bit 16 (ucast (r2 :: u32) :: u64)) = unat r2 * 65536"
proof -
  have "unat r2 * 65536 < 2 ^ 64" using unat_u32_less [of r2] by simp
  then have "take_bit 64 (unat r2 * 65536) = unat r2 * 65536"
    by (simp only: take_bit_nat_eq_self)
  then show ?thesis
    by (simp only: unsigned_push_bit_eq unat_ucast_u64) (simp add: push_bit_eq_mult)
qed

lemma fixed_point_quotient:
  "(ucast (push_bit 16 (ucast (r2 :: u32) :: u64) div ucast (r1 :: u32)) :: u32) =
     of_nat (unat r2 * 65536 div unat r1)"
proof -
  have "unat (push_bit 16 (ucast r2 :: u64) div ucast r1) = unat r2 * 65536 div unat r1"
    by (simp only: unat_div unat_fixed_point unat_ucast_u64)
  then show ?thesis
    by (metis of_nat_unat)
qed

lemma fixed_point_remainder:
  "(ucast (push_bit 16 (ucast (r2 :: u32) :: u64) mod ucast (r1 :: u32)) :: u32) =
     of_nat (unat r2 * 65536 mod unat r1)"
proof -
  have "unat (push_bit 16 (ucast r2 :: u64) mod ucast r1) = unat r2 * 65536 mod unat r1"
    by (simp only: unat_mod unat_fixed_point unat_ucast_u64)
  then show ?thesis
    by (metis of_nat_unat)
qed

lemma plain_quotient: "(r2 :: u32) div r1 = of_nat (unat r2 div unat r1)"
  by (metis of_nat_unat unat_div ucast_id)

lemma plain_remainder: "(r2 :: u32) mod r1 = of_nat (unat r2 mod unat r1)"
  by (metis of_nat_unat unat_mod ucast_id)

text \<open>
  Claim C5. \<^verbatim>\<open>div\<close> with a divisor register of 0 sets the quotient (destination)
  register to \<open>0xFFFFFFFF\<close> and changes nothing else, whatever the dividend and the
  divide-control bit: the remainder control register keeps its value and the handler
  returns normally. With a divisor other than 0, the quotient and the remainder
  control register are those of the unsigned integer division of the dividend by the
  divisor, or, when bit 0 of the divide-control register is set, of the dividend shifted
  left by 16 bits (16.16 fixed point), both reduced to 32 bits.
\<close>

theorem div_rn_rn_result:
  "div_rn_rn op s =
     (let r1 = m_r s (SREG op);
          r2 = m_r s (DREG op)
      in if r1 = 0 then s\<lparr>m_r := (m_r s)(DREG op := 0xffffffff)\<rparr>
         else if m_ctrl s D_DIVCTRL AND 1 \<noteq> 0
         then s\<lparr>m_r := (m_r s)(DREG op := of_nat (unat r2 * 65536 div unat r1)),
                m_ctrl := (m_ctrl s)(D_REMAINDER := of_nat (unat r2 * 65536 mod unat r1))\<rparr>
         else s\<lparr>m_r := (m_r s)(DREG op := of_nat (unat r2 div unat r1)),
                m_ctrl := (m_ctrl s)(D_REMAINDER := of_nat (unat r2 mod unat r1))\<rparr>)"
  by (simp add: div_rn_rn_def Let_def set_r_def set_ctrl_def fixed_point_quotient
      fixed_point_remainder plain_quotient [symmetric] plain_remainder [symmetric])

theorem div_rn_rn_result_witness:
  "m_r (div_rn_rn 0x5441 (set_r 1 0x12345678 gpu0)) 1 = 0xffffffff \<and>
   m_ctrl (div_rn_rn 0x5441 (set_r 1 0x12345678 gpu0)) = m_ctrl (set_r 1 0x12345678 gpu0) \<and>
   m_r (div_rn_rn 0x5441 (set_ctrl D_DIVCTRL 1 (set_r 1 0x12345678 gpu0))) 1 = 0xffffffff \<and>
   m_ctrl (div_rn_rn 0x5441 (set_ctrl D_DIVCTRL 1 (set_r 1 0x12345678 gpu0))) =
     m_ctrl (set_ctrl D_DIVCTRL 1 (set_r 1 0x12345678 gpu0)) \<and>
   m_r (div_rn_rn 0x5441 (set_r 2 2 (set_r 1 7 gpu0))) 1 = 3 \<and>
   m_ctrl (div_rn_rn 0x5441 (set_r 2 2 (set_r 1 7 gpu0))) D_REMAINDER = 1 \<and>
   m_r (div_rn_rn 0x5441 (set_ctrl D_DIVCTRL 1 (set_r 2 2 (set_r 1 7 gpu0)))) 1 = 0x38000 \<and>
   m_ctrl (div_rn_rn 0x5441 (set_ctrl D_DIVCTRL 1 (set_r 2 2 (set_r 1 7 gpu0)))) D_REMAINDER = 0"
  using div_rn_rn_result [of "0x5441" "set_r 1 0x12345678 gpu0"]
        div_rn_rn_result [of "0x5441" "set_ctrl D_DIVCTRL 1 (set_r 1 0x12345678 gpu0)"]
        div_rn_rn_result [of "0x5441" "set_r 2 2 (set_r 1 7 gpu0)"]
        div_rn_rn_result [of "0x5441" "set_ctrl D_DIVCTRL 1 (set_r 2 2 (set_r 1 7 gpu0))"]
  by (simp add: Let_def set_r_def set_ctrl_def start_defs SREG_def DREG_def D_DIVCTRL_def
      D_REMAINDER_def)

subsection \<open>Byte stores into the internal RAM\<close>

text \<open>
  Claim C6. On a device as its constructor leaves it (the GPU with the internal RAM
  window \<open>0xf03000\<close> to \<open>0xf03fff\<close>, the DSP with \<open>0xf1b000\<close> to \<open>0xf1cfff\<close>,
  all other members arbitrary), \<^verbatim>\<open>storeb\<close> with a target address inside the window
  issues one 4-byte write of the whole 32-bit source register at the address with its
  low two bits cleared, and with a target address outside the window one 1-byte write
  of the low byte of the source register at the address itself. Nothing but the bus
  changes.
\<close>

theorem storeb_rn_rn_internal_ram:
  "(let s = jaguar_cpu_device version isdsp s0;
        r1 = m_r s (SREG op);
        v = m_r s (DREG op);
        inside = (if isdsp then 0xf1b000 \<le> r1 \<and> r1 \<le> 0xf1cfff
                  else 0xf03000 \<le> r1 \<and> r1 \<le> 0xf03fff)
    in storeb_rn_rn op s =
         s\<lparr>m_program := (if inside then write_dword (m_program s) (r1 AND NOT 3) v
                           else write_byte (m_program s) r1 (ucast v))\<rparr> \<and>
       accesses (m_program (storeb_rn_rn op s)) =
         (if inside then WRITE_DWORD (r1 AND NOT 3) v else WRITE_BYTE r1 (ucast v)) #
         accesses (m_program s) \<and>
       (r1 AND NOT 3) AND 3 = 0 \<and> r1 AND NOT 3 \<le> r1)"
  by (simp add: Let_def storeb_rn_rn_def jaguar_cpu_device_def WRITELONG_def WRITEBYTE_def
      write_dword_def write_byte_def and.assoc word_and_le2)

theorem storeb_rn_rn_internal_ram_witness:
  "accesses (m_program (storeb_rn_rn 0xb441 (set_r 2 0xf03005 (set_r 1 0x11223344 gpu0)))) =
     [WRITE_DWORD 0xf03004 0x11223344] \<and>
   accesses (m_program (storeb_rn_rn 0xb441 (set_r 2 0xf04001 (set_r 1 0x11223344 gpu0)))) =
     [WRITE_BYTE 0xf04001 0x44] \<and>
   accesses (m_program (storeb_rn_rn 0xb441 (set_r 2 0xf1cffe (set_r 1 0x11223344 dsp0)))) =
     [WRITE_DWORD 0xf1cffc 0x11223344]"
  using storeb_rn_rn_internal_ram [of 2 False "set_r 2 0xf03005 (set_r 1 0x11223344 gpu0)" "0xb441"]
        storeb_rn_rn_internal_ram [of 2 False "set_r 2 0xf04001 (set_r 1 0x11223344 gpu0)" "0xb441"]
        storeb_rn_rn_internal_ram [of 2 True "set_r 2 0xf1cffe (set_r 1 0x11223344 dsp0)" "0xb441"]
  by (simp add: Let_def set_r_def start_defs SREG_def DREG_def write_dword_def write_byte_def)

subsection \<open>Register banks\<close>

lemma unat_index_less: "unat (k :: 5 word) < 32"
  using unsigned_less [of k, where ?'a = nat] by simp

lemma index_eq_iff: "i < 32 \<Longrightarrow> (k :: 5 word) = of_nat i \<longleftrightarrow> unat k = i"
proof
  assume "i < 32" and "k = of_nat i"
  then show "unat k = i" by (simp add: unat_of_nat)
next
  assume "unat k = i"
  then show "k = of_nat i" by (metis of_nat_unat ucast_id)
qed

lemma exchange_from:
  "exchange i (r, a) =
     ((\<lambda>k. if i \<le> unat k then a k else r k), (\<lambda>k. if i \<le> unat k then r k else a k))"
proof (induction i "(r, a)" arbitrary: r a rule: exchange.induct)
  case (1 i r a)
  show ?case
  proof (cases "i < 32")
    case True
    let ?r = "r(of_nat i := a (of_nat i))"
    let ?a = "a(of_nat i := r (of_nat i))"
    have step: "exchange i (r, a) = exchange (i + 1) (?r, ?a)"
      using True by (subst exchange.simps) (simp add: Let_def)
    have ih: "exchange (i + 1) (?r, ?a) =
      ((\<lambda>k. if i + 1 \<le> unat k then ?a k else ?r k),
       (\<lambda>k. if i + 1 \<le> unat k then ?r k else ?a k))"
      using "1.hyps" [OF True refl refl refl] by simp
    have at_i: "of_nat i = k" if "unat k = i" for k :: "5 word"
      using that index_eq_iff [OF True, of k] by simp
    have "(\<lambda>k. if i + 1 \<le> unat k then ?a k else ?r k) = (\<lambda>k. if i \<le> unat k then a k else r k)"
    proof (rule ext)
      fix k :: "5 word"
      consider "unat k < i" | "unat k = i" | "i < unat k" by linarith
      then show "(if i + 1 \<le> unat k then ?a k else ?r k) = (if i \<le> unat k then a k else r k)"
        by cases (auto simp: index_eq_iff [OF True] at_i)
    qed
    moreover have "(\<lambda>k. if i + 1 \<le> unat k then ?r k else ?a k) = (\<lambda>k. if i \<le> unat k then r k else a k)"
    proof (rule ext)
      fix k :: "5 word"
      consider "unat k < i" | "unat k = i" | "i < unat k" by linarith
      then show "(if i + 1 \<le> unat k then ?r k else ?a k) = (if i \<le> unat k then r k else a k)"
        by cases (auto simp: index_eq_iff [OF True] at_i)
    qed
    ultimately show ?thesis by (simp only: step ih)
  next
    case False
    have "\<not> i \<le> unat k" for k :: "5 word"
      using False unat_index_less [of k] by simp
    then show ?thesis using False by (subst exchange.simps) simp
  qed
qed

lemma exchange_all: "exchange 0 (r, a) = (a, r)"
  by (simp add: exchange_from)

lemma update_register_banks_eq:
  "update_register_banks s =
     (let bank0 = (FLAGS s AND IFLAG \<noteq> 0 \<or> FLAGS s AND RPAGEFLAG = 0)
      in if (bank0 \<and> m_b0 s \<noteq> PTR_R) \<or> (\<not> bank0 \<and> m_b1 s \<noteq> PTR_R)
         then s\<lparr>m_bankswitch_icount := m_icount s - 1, m_r := m_a s, m_a := m_r s,
                m_b0 := (if bank0 then PTR_R else PTR_A),
                m_b1 := (if bank0 then PTR_A else PTR_R)\<rparr>
         else s)"
  by (auto simp: update_register_banks_def Let_def exchange_all)

lemma bank_pointers_reset: "m_b0 (device_reset s) \<noteq> m_b1 (device_reset s)"
  by (simp add: device_reset_def)

lemma bank_pointers_kept:
  "m_b0 s \<noteq> m_b1 s \<Longrightarrow> m_b0 (update_register_banks s) \<noteq> m_b1 (update_register_banks s)"
  by (auto simp: update_register_banks_eq Let_def)

text \<open>
  Claim C3. After a bank-switch recomputation (the pointers \<^verbatim>\<open>m_b0\<close> and
  \<^verbatim>\<open>m_b1\<close> naming different arrays, as after reset): if the interrupt-mask flag is
  set, the active bank is bank 0 (\<^verbatim>\<open>m_b0\<close> is the array of the general registers)
  whatever the page-select bit; the active bank is bank 0 exactly when the mask flag is
  set or the page bit is clear; when the desired bank is the current one nothing
  changes; and when it differs, the contents of the two 32-entry arrays are exchanged
  and the pointers swapped, so that with the mask flag clear and the page bit opposite
  to the current bank, a general-register read returns what the other bank held.
\<close>

theorem update_register_banks_invariant:
  assumes "m_b0 s \<noteq> m_b1 s"
  shows "(let bank0 = (FLAGS s AND IFLAG \<noteq> 0 \<or> FLAGS s AND RPAGEFLAG = 0);
              s' = update_register_banks s
          in (FLAGS s AND IFLAG \<noteq> 0 \<longrightarrow> m_b0 s' = PTR_R) \<and>
             m_b0 s' = (if bank0 then PTR_R else PTR_A) \<and>
             m_b1 s' = (if bank0 then PTR_A else PTR_R) \<and>
             (if bank0 = (m_b0 s = PTR_R)
              then s' = s
              else s' = s\<lparr>m_bankswitch_icount := m_icount s - 1, m_r := m_a s, m_a := m_r s,
                          m_b0 := m_b1 s, m_b1 := m_b0 s\<rparr> \<and>
                   (\<forall>k. m_r s' k = m_a s k \<and> m_a s' k = m_r s k)) \<and>
             (FLAGS s AND IFLAG = 0 \<and> (FLAGS s AND RPAGEFLAG \<noteq> 0) = (m_b0 s = PTR_R) \<longrightarrow>
                (\<forall>k. m_r s' k = m_a s k)))"
proof -
  have "m_b0 s = PTR_R \<and> m_b1 s = PTR_A \<or> m_b0 s = PTR_A \<and> m_b1 s = PTR_R"
    using assms by (cases "m_b0 s"; cases "m_b1 s") simp_all
  then show ?thesis
    by (auto simp: update_register_banks_eq Let_def)
qed

theorem update_register_banks_invariant_witness:
  "m_b0 (set_FLAGS RPAGEFLAG (set_a 3 0x55 (set_r 3 0xaa gpu0))) \<noteq>
     m_b1 (set_FLAGS RPAGEFLAG (set_a 3 0x55 (set_r 3 0xaa gpu0))) \<and>
   m_r (update_register_banks (set_FLAGS RPAGEFLAG (set_a 3 0x55 (set_r 3 0xaa gpu0)))) 3 = 0x55 \<and>
   m_a (update_register_banks (set_FLAGS RPAGEFLAG (set_a 3 0x55 (set_r 3 0xaa gpu0)))) 3 = 0xaa \<and>
   m_b0 (update_register_banks (set_FLAGS RPAGEFLAG (set_a 3 0x55 (set_r 3 0xaa gpu0)))) = PTR_A \<and>
   m_b0 (update_register_banks
          (set_FLAGS (RPAGEFLAG OR IFLAG) (set_a 3 0x55 (set_r 3 0xaa gpu0)))) = PTR_R"
proof -
  let ?s = "set_FLAGS RPAGEFLAG (set_a 3 0x55 (set_r 3 0xaa gpu0))"
  let ?t = "set_FLAGS (RPAGEFLAG OR IFLAG) (set_a 3 0x55 (set_r 3 0xaa gpu0))"
  have s: "m_b0 ?s \<noteq> m_b1 ?s"
    by (simp add: set_FLAGS_def set_ctrl_def set_a_def set_r_def start_defs)
  have t: "m_b0 ?t \<noteq> m_b1 ?t"
    by (simp add: set_FLAGS_def set_ctrl_def set_a_def set_r_def start_defs)
  show ?thesis
    using s update_register_banks_invariant [OF s] update_register_banks_invariant [OF t]
    by (simp add: Let_def FLAGS_def set_FLAGS_def set_ctrl_def set_a_def set_r_def start_defs
        flag_defs G_FLAGS_def)
qed

subsection \<open>Interrupts\<close>

lemma and_bit_u8:
  "(b :: u8) AND 0x01 \<noteq> 0 \<longleftrightarrow> bit b 0"
  "(b :: u8) AND 0x02 \<noteq> 0 \<longleftrightarrow> bit b 1"
  "(b :: u8) AND 0x04 \<noteq> 0 \<longleftrightarrow> bit b 2"
  "(b :: u8) AND 0x08 \<noteq> 0 \<longleftrightarrow> bit b 3"
  "(b :: u8) AND 0x10 \<noteq> 0 \<longleftrightarrow> bit b 4"
  "(b :: u8) AND 0x20 \<noteq> 0 \<longleftrightarrow> bit b 5"
  using bit_iff_and_push_bit_not_eq_0 [of b 0] bit_iff_and_push_bit_not_eq_0 [of b 1]
    bit_iff_and_push_bit_not_eq_0 [of b 2] bit_iff_and_push_bit_not_eq_0 [of b 3]
    bit_iff_and_push_bit_not_eq_0 [of b 4] bit_iff_and_push_bit_not_eq_0 [of b 5]
  by simp_all

lemma check_irqs_masked: "FLAGS s AND IFLAG \<noteq> 0 \<Longrightarrow> check_irqs s = s"
  by (simp add: check_irqs_def)

lemma check_irqs_idle: "irq_bits s = 0 \<Longrightarrow> check_irqs s = s"
  by (simp add: check_irqs_def irq_bits_def Let_def)

lemma update_register_banks_frame:
  "m_ctrl (update_register_banks s) = m_ctrl s"
  "m_isdsp (update_register_banks s) = m_isdsp s"
  "m_program (update_register_banks s) = m_program s"
  by (simp_all add: update_register_banks_eq Let_def)

lemma check_irqs_dispatch:
  assumes clear: "FLAGS s AND IFLAG = 0"
    and k: "k < 6" "bit (irq_bits s) k"
    and highest: "\<forall>j. k < j \<and> j < 6 \<longrightarrow> \<not> bit (irq_bits s) j"
  shows "check_irqs s =
    (let s1 = update_register_banks (set_FLAGS (FLAGS s OR IFLAG) s);
         sp = m_r s1 31 - 4
     in set_PC ((if m_isdsp s then 0xf1b000 else 0xf03000) + of_nat k * 0x10)
          (WRITELONG sp (PC s - 2) (set_r 31 sp s1)))"
proof -
  have nz: "irq_bits s \<noteq> 0" using k by auto
  have h: "\<not> bit (irq_bits s) j" if "k < j" "j < 6" for j
    using highest that by blast
  consider "k = 0" | "k = 1" | "k = 2" | "k = 3" | "k = 4" | "k = 5"
    using k(1) by linarith
  then show ?thesis
  proof cases
    case 1
    with k h [of 1] h [of 2] h [of 3] h [of 4] h [of 5] clear nz show ?thesis
      unfolding check_irqs_def irq_bits_def [symmetric] Let_def
      by (simp add: and_bit_u8 PC_def set_PC_def set_ctrl_def WRITELONG_def set_r_def set_FLAGS_def
          update_register_banks_frame G_PC_def G_FLAGS_def)
  next
    case 2
    with k h [of 2] h [of 3] h [of 4] h [of 5] clear nz show ?thesis
      unfolding check_irqs_def irq_bits_def [symmetric] Let_def
      by (simp add: and_bit_u8 PC_def set_PC_def set_ctrl_def WRITELONG_def set_r_def set_FLAGS_def
          update_register_banks_frame G_PC_def G_FLAGS_def)
  next
    case 3
    with k h [of 3] h [of 4] h [of 5] clear nz show ?thesis
      unfolding check_irqs_def irq_bits_def [symmetric] Let_def
      by (simp add: and_bit_u8 PC_def set_PC_def set_ctrl_def WRITELONG_def set_r_def set_FLAGS_def
          update_register_banks_frame G_PC_def G_FLAGS_def)
  next
    case 4
    with k h [of 4] h [of 5] clear nz show ?thesis
      unfolding check_irqs_def irq_bits_def [symmetric] Let_def
      by (simp add: and_bit_u8 PC_def set_PC_def set_ctrl_def WRITELONG_def set_r_def set_FLAGS_def
          update_register_banks_frame G_PC_def G_FLAGS_def)
  next
    case 5
    with k h [of 5] clear nz show ?thesis
      unfolding check_irqs_def irq_bits_def [symmetric] Let_def
      by (simp add: and_bit_u8 PC_def set_PC_def set_ctrl_def WRITELONG_def set_r_def set_FLAGS_def
          update_register_banks_frame G_PC_def G_FLAGS_def)
  next
    case 6
    with k clear nz show ?thesis
      unfolding check_irqs_def irq_bits_def [symmetric] Let_def
      by (simp add: and_bit_u8 PC_def set_PC_def set_ctrl_def WRITELONG_def set_r_def set_FLAGS_def
          update_register_banks_frame G_PC_def G_FLAGS_def)
  qed
qed


lemma bit_int_32: "bit (32 :: int) n \<longleftrightarrow> n = 5"
  using bit_exp_iff [where ?'a = int, of 5 n] by simp

lemma irq_bits_line5:
  "bit (irq_bits s) 5 \<longleftrightarrow> bit (m_ctrl s G_CTRL) 15 \<and> bit (FLAGS s) 16"
  by (simp add: irq_bits_def bit_simps bit_int_32)

lemma irq_bits_low_lines:
  "k < 5 \<Longrightarrow> bit (irq_bits s) k \<longleftrightarrow> bit (m_ctrl s G_CTRL) (6 + k) \<and> bit (FLAGS s) (4 + k)"
  by (auto simp: irq_bits_def bit_simps bit_int_32 less_Suc_eq numeral_eq_Suc)

text \<open>
  The interrupt scenario of the spec on line 2 of the GPU: the mask flag is set, the
  program counter is the vector base plus \<open>2 * 0x10\<close>, register 31 has gone down by
  4, and the long word at the new register 31 is the old program counter minus 2,
  written by one 4-byte access.
\<close>

lemma irq_scenario_line2:
  "FLAGS (execute_set_input 2 ASSERT_LINE
            (set_r 31 0x1000 (set_PC 0xf03010 (set_FLAGS EINT2FLAG gpu0)))) = EINT2FLAG OR IFLAG \<and>
   PC (execute_set_input 2 ASSERT_LINE
            (set_r 31 0x1000 (set_PC 0xf03010 (set_FLAGS EINT2FLAG gpu0)))) = 0xf03000 + 2 * 0x10 \<and>
   m_r (execute_set_input 2 ASSERT_LINE
            (set_r 31 0x1000 (set_PC 0xf03010 (set_FLAGS EINT2FLAG gpu0)))) 31 = 0x1000 - 4 \<and>
   READLONG (execute_set_input 2 ASSERT_LINE
            (set_r 31 0x1000 (set_PC 0xf03010 (set_FLAGS EINT2FLAG gpu0)))) 0xffc = 0xf03010 - 2 \<and>
   accesses (m_program (execute_set_input 2 ASSERT_LINE
            (set_r 31 0x1000 (set_PC 0xf03010 (set_FLAGS EINT2FLAG gpu0))))) =
     [WRITE_DWORD 0xffc 0xf0300e]"
  by (simp add: execute_set_input_def check_irqs_def Let_def update_register_banks_eq
      set_FLAGS_def set_ctrl_def FLAGS_def PC_def set_PC_def set_r_def WRITELONG_def
      READLONG_def read_dword_def read_word_def
      write_dword_def start_defs flag_defs ctrl_index_defs ASSERT_LINE_def CLEAR_LINE_def)


text \<open>
  Claim C1. With the interrupt-mask flag clear and at least one line both pending and
  enabled, the interrupt check should select the highest such line \<open>k\<close>, set the
  mask flag, force bank 0, push \<open>PC - 2\<close> through register 31 and set the program
  counter to the vector base plus \<open>k * 0x10\<close>; with the mask flag set it changes
  nothing (\<open>check_irqs_masked\<close>). For the lines 0 to 4 the code does so
  (\<open>check_irqs_dispatch\<close>, \<open>irq_bits_low_lines\<close>). Line 5 of the DSP fails:
  \<^verbatim>\<open>execute_set_input\<close> latches it in bit 16 of the control register, where the
  flags write of the DSP also acknowledges it, but \<^verbatim>\<open>check_irqs\<close> takes its sixth
  pending bit from bit 15 (\<open>irq_bits_line5\<close>). Asserting line 5 with its enable bit
  set and the mask flag clear latches the line and dispatches nothing, where the same
  on line 4 vectors to \<open>0xf1b040\<close>.
\<close>

theorem line5_assert_not_dispatched:
  "execute_set_input 5 ASSERT_LINE (set_FLAGS EINT5FLAG dsp0) =
     set_ctrl G_CTRL 0x10000 (set_FLAGS EINT5FLAG dsp0) \<and>
   PC (execute_set_input 5 ASSERT_LINE (set_FLAGS EINT5FLAG dsp0)) = 0 \<and>
   FLAGS (execute_set_input 5 ASSERT_LINE (set_FLAGS EINT5FLAG dsp0)) AND IFLAG = 0 \<and>
   PC (execute_set_input 4 ASSERT_LINE (set_FLAGS EINT4FLAG dsp0)) = 0xf1b040 \<and>
   FLAGS (execute_set_input 4 ASSERT_LINE (set_FLAGS EINT4FLAG dsp0)) AND IFLAG = IFLAG"
  by (simp add: execute_set_input_def check_irqs_def Let_def update_register_banks_eq
      set_FLAGS_def set_ctrl_def FLAGS_def PC_def set_PC_def set_r_def WRITELONG_def
      write_dword_def start_defs flag_defs ctrl_index_defs ASSERT_LINE_def CLEAR_LINE_def)


subsection \<open>Writing the flags register\<close>

lemma bit_int_8: "bit (8 :: int) n \<longleftrightarrow> n = 3"
  using bit_exp_iff [where ?'a = int, of 3 n] by simp

lemma and_8_iff: "(n :: u32) AND 8 \<noteq> 0 \<longleftrightarrow> bit n 3"
  using bit_iff_and_push_bit_not_eq_0 [of n 3] by simp

lemma iflag_kept:
  "(n :: u32) AND 8 \<noteq> 0 \<Longrightarrow> n AND old AND 8 = old AND 8"
  by (rule bit_word_eqI) (auto simp: bit_simps bit_int_8 and_8_iff)

lemma iflag_dropped:
  "(n :: u32) AND 8 = 0 \<Longrightarrow> n AND old AND 8 = 0"
  using and_8_iff [of n] by - (rule bit_word_eqI, auto simp: bit_simps bit_int_8)

text \<open>
  Claim C7, as the code has it. A write to the flags register through the control port
  admits only the Z, C, N, interrupt-enable and page-select bits of the written value
  (the value after the write mask is applied) into the stored flags. The
  interrupt-mask bit is kept only if the written value has it set: the stored bit is
  the conjunction of the existing bit and the written bit, so a write can clear the
  mask but cannot set it. The write also clears the pending bits of the control
  register that the written value acknowledges, and then recomputes the register bank
  and runs the interrupt check.
\<close>

theorem ctrl_w_flags:
  "jaguargpu_ctrl_w G_FLAGS data mem_mask s =
     (let newval = COMBINE_DATA (FLAGS s) data mem_mask;
          flags = (newval AND (ZFLAG OR CFLAG OR NFLAG OR EINT04FLAGS OR RPAGEFLAG)) OR
                  (newval AND FLAGS s AND IFLAG);
          ctrl = m_ctrl s G_CTRL AND NOT (drop_bit 3 (newval AND CINT04FLAGS))
      in check_irqs (update_register_banks
           (s\<lparr>m_ctrl := (m_ctrl s)(G_FLAGS := flags, G_CTRL := ctrl)\<rparr>))) \<and>
   jaguardsp_ctrl_w D_FLAGS data mem_mask s =
     (let newval = COMBINE_DATA (FLAGS s) data mem_mask;
          flags = (newval AND (ZFLAG OR CFLAG OR NFLAG OR EINT04FLAGS OR EINT5FLAG OR
                               RPAGEFLAG)) OR
                  (newval AND FLAGS s AND IFLAG);
          ctrl = m_ctrl s D_CTRL AND NOT (drop_bit 3 (newval AND CINT04FLAGS))
                   AND NOT (drop_bit 1 (newval AND CINT5FLAG))
      in check_irqs (update_register_banks
           (s\<lparr>m_ctrl := (m_ctrl s)(D_FLAGS := flags, D_CTRL := ctrl)\<rparr>)))"
  by (simp add: jaguargpu_ctrl_w_def jaguardsp_ctrl_w_def Let_def set_ctrl_def FLAGS_def
      flag_defs ctrl_index_defs iflag_kept iflag_dropped and.assoc)

theorem ctrl_w_flags_witness:
  "FLAGS (jaguargpu_ctrl_w G_FLAGS 0xffffffff 0xffffffff
            (set_ctrl G_CTRL 0x40 (set_FLAGS IFLAG gpu0))) = 0x41ff \<and>
   m_ctrl (jaguargpu_ctrl_w G_FLAGS 0xffffffff 0xffffffff
            (set_ctrl G_CTRL 0x40 (set_FLAGS IFLAG gpu0))) G_CTRL = 0 \<and>
   FLAGS (jaguardsp_ctrl_w D_FLAGS 0xffffffff 0xffffffff
            (set_ctrl D_CTRL 0x10040 dsp0)) = 0x141f7 \<and>
   m_ctrl (jaguardsp_ctrl_w D_FLAGS 0xffffffff 0xffffffff
            (set_ctrl D_CTRL 0x10040 dsp0)) D_CTRL = 0"
  using ctrl_w_flags [of "0xffffffff" "0xffffffff" "set_ctrl G_CTRL 0x40 (set_FLAGS IFLAG gpu0)"]
        ctrl_w_flags [of "0xffffffff" "0xffffffff" "set_ctrl D_CTRL 0x10040 dsp0"]
  by (simp add: Let_def set_ctrl_def FLAGS_def set_FLAGS_def COMBINE_DATA_def
      flag_defs ctrl_index_defs check_irqs_def update_register_banks_eq start_defs)

text \<open>
  The claim as stated has the existing interrupt-mask bit survive an outside write that
  tries to clear it. It does not: writing 0 to the flags of a device whose mask flag is
  set clears the flag.
\<close>

theorem ctrl_w_flags_clears_mask:
  "FLAGS (set_FLAGS IFLAG gpu0) AND IFLAG = IFLAG \<and>
   FLAGS (jaguargpu_ctrl_w G_FLAGS 0 0xffffffff (set_FLAGS IFLAG gpu0)) AND IFLAG = 0"
  by (simp add: jaguargpu_ctrl_w_def Let_def set_ctrl_def FLAGS_def set_FLAGS_def COMBINE_DATA_def
      flag_defs ctrl_index_defs check_irqs_def update_register_banks_eq start_defs)

subsection \<open>The multiply and accumulate chain\<close>

lemma sint16_bounds: "- 32768 \<le> sint (x :: u16) \<and> sint x < 32768"
  using sint_ge [of x] sint_lt [of x] by simp

lemma product_bounds:
  fixes a b :: int
  assumes "- 32768 \<le> a" "a < 32768" "- 32768 \<le> b" "b < 32768"
  shows "- 1073741824 \<le> a * b \<and> a * b \<le> 1073741824"
proof -
  have "\<bar>a\<bar> \<le> 32768" "\<bar>b\<bar> \<le> 32768" using assms by auto
  then have "\<bar>a\<bar> * \<bar>b\<bar> \<le> 32768 * 32768"
    by (intro mult_mono) auto
  then have "\<bar>a * b\<bar> \<le> 1073741824" by (simp add: abs_mult)
  then show ?thesis by auto
qed

lemma sint_imul16:
  "sint (imul16 r1 r2) = sint (ucast r1 :: u16) * sint (ucast r2 :: u16)"
proof -
  let ?a = "sint (ucast r1 :: u16)" and ?b = "sint (ucast r2 :: u16)"
  have b: "- 1073741824 \<le> ?a * ?b \<and> ?a * ?b \<le> 1073741824"
    using sint16_bounds [of "ucast r1"] sint16_bounds [of "ucast r2"]
    by (intro product_bounds) auto
  have up: "sint (scast (x :: u16) :: u32) = sint x" for x
    by (simp add: sint_up_scast is_up)
  have "sint (imul16 r1 r2) = signed_take_bit 31 (?a * ?b)"
    by (simp add: imul16_def sint_word_ariths up)
  also have "\<dots> = ?a * ?b"
    using b by (intro signed_take_bit_int_eq_self) auto
  finally show ?thesis .
qed

lemma scast_imul16:
  "(scast (imul16 r1 r2) :: u64) = of_int (sint (ucast r1 :: u16) * sint (ucast r2 :: u16))"
  by (simp only: scast_eq sint_imul16)


lemma imultn_loop_run:
  assumes "\<forall>i<n. drop_bit 10 (word_at s i) = 20"
    and "drop_bit 10 (word_at s n) \<noteq> 20"
  shows "imultn_loop (word_at s 0) s =
    Some (word_at s n,
          s\<lparr>m_accum := m_accum s + of_int (\<Sum>i<n. mac_product s (word_at s i)),
            m_ctrl := (m_ctrl s)(G_PC := PC s + 2 * of_nat n)\<rparr>)"
  using assms
proof (induction n arbitrary: s)
  case 0
  have "s\<lparr>m_accum := m_accum s, m_ctrl := (m_ctrl s)(G_PC := PC s)\<rparr> = s"
    by (simp add: PC_def)
  with 0 show ?case
    by (subst imultn_loop.simps) simp
next
  case (Suc n)
  let ?s = "set_PC (PC s + 2)
              (s\<lparr>m_accum := m_accum s + scast (imul16 (m_r s (SREG (word_at s 0)))
                                                      (m_r s (DREG (word_at s 0))))\<rparr>)"
  have shift: "word_at ?s i = word_at s (Suc i)" for i
    by (simp add: word_at_def ROPCODE_def PC_def set_PC_def set_ctrl_def algebra_simps)
  have first: "drop_bit 10 (word_at s 0) = 20"
    using Suc.prems(1) by simp
  have rest: "\<forall>i<n. drop_bit 10 (word_at ?s i) = 20"
    using Suc.prems(1) by (simp add: shift)
  have last: "drop_bit 10 (word_at ?s n) \<noteq> 20"
    using Suc.prems(2) by (simp add: shift)
  have here: "ROPCODE ?s (PC ?s) = word_at ?s 0"
    by (simp add: word_at_def)
  have pc_accum: "PC (s\<lparr>m_accum := x\<rparr>) = PC s" for x
    by (simp add: PC_def)
  have step: "imultn_loop (word_at s 0) s = imultn_loop (word_at ?s 0) ?s"
    by (subst imultn_loop.simps) (simp add: first Let_def pc_accum here)
  have prods: "mac_product ?s w = mac_product s w" for w
    by (simp add: mac_product_def set_PC_def set_ctrl_def)
  have sum: "(\<Sum>i<Suc n. mac_product s (word_at s i)) =
      mac_product s (word_at s 0) + (\<Sum>i<n. mac_product s (word_at s (Suc i)))"
    by (rule sum.lessThan_Suc_shift)
  have state: "?s\<lparr>m_accum := m_accum ?s + of_int (\<Sum>i<n. mac_product ?s (word_at ?s i)),
            m_ctrl := (m_ctrl ?s)(G_PC := PC ?s + 2 * of_nat n)\<rparr> =
        s\<lparr>m_accum := m_accum s + of_int (\<Sum>i<Suc n. mac_product s (word_at s i)),
            m_ctrl := (m_ctrl s)(G_PC := PC s + 2 * of_nat (Suc n))\<rparr>"
    by (simp only: sum prods shift)
       (simp add: set_PC_def set_ctrl_def PC_def scast_imul16 mac_product_def algebra_simps)
  have "imultn_loop (word_at s 0) s = imultn_loop (word_at ?s 0) ?s"
    by (rule step)
  also have "\<dots> = Some (word_at ?s n,
      ?s\<lparr>m_accum := m_accum ?s + of_int (\<Sum>i<n. mac_product ?s (word_at ?s i)),
         m_ctrl := (m_ctrl ?s)(G_PC := PC ?s + 2 * of_nat n)\<rparr>)"
    by (rule Suc.IH [OF rest last])
  also have "\<dots> = Some (word_at s (Suc n),
      s\<lparr>m_accum := m_accum s + of_int (\<Sum>i<Suc n. mac_product s (word_at s i)),
        m_ctrl := (m_ctrl s)(G_PC := PC s + 2 * of_nat (Suc n))\<rparr>)"
    by (subst state) (simp only: shift)
  finally show ?case .
qed


lemma imultn_rn_rn_chain:
  assumes macs: "\<forall>i<n. drop_bit 10 (word_at s i) = 20"
    and resmac: "drop_bit 10 (word_at s n) = 19"
  shows "imultn_rn_rn op s =
    Some (let res = imul16 (m_r s (SREG op)) (m_r s (DREG op));
              acc = of_int (mac_product s op + (\<Sum>i<n. mac_product s (word_at s i)));
              s1 = SET_ZN res (CLR_ZN s)
          in s1\<lparr>m_r := (m_r s)(DREG (word_at s n) := of_int
                      (mac_product s op + (\<Sum>i<n. mac_product s (word_at s i)))),
                m_accum := acc,
                m_ctrl := (m_ctrl s1)(G_PC := PC s + 2 * of_nat n + 2)\<rparr>)"
proof -
  let ?res = "imul16 (m_r s (SREG op)) (m_r s (DREG op))"
  let ?s1 = "SET_ZN ?res (CLR_ZN (s\<lparr>m_accum := scast ?res\<rparr>))"
  have words: "word_at ?s1 i = word_at s i" for i
    by (simp add: word_at_def ROPCODE_def PC_def flag_ops ctrl_index_defs)
  have prods: "mac_product ?s1 w = mac_product s w" for w
    by (simp add: mac_product_def flag_ops)
  have not20: "drop_bit 10 (word_at ?s1 n) \<noteq> 20"
    using resmac by (simp add: words)
  have all20: "\<forall>i<n. drop_bit 10 (word_at ?s1 i) = 20"
    using macs by (simp add: words)
  have here: "ROPCODE ?s1 (PC ?s1) = word_at ?s1 0"
    by (simp add: word_at_def)
  have loop: "imultn_loop (ROPCODE ?s1 (PC ?s1)) ?s1 =
    Some (word_at s n,
          ?s1\<lparr>m_accum := m_accum ?s1 + of_int (\<Sum>i<n. mac_product s (word_at s i)),
              m_ctrl := (m_ctrl ?s1)(G_PC := PC ?s1 + 2 * of_nat n)\<rparr>)"
    unfolding here using imultn_loop_run [OF all20 not20] by (simp only: words prods)
  have low: "(ucast (of_int k :: u64) :: u32) = of_int k" for k
    by (rule bit_word_eqI) (auto simp: bit_simps)
  have acc: "scast ?res + of_int (\<Sum>i<n. mac_product s (word_at s i)) =
      (of_int (mac_product s op + (\<Sum>i<n. mac_product s (word_at s i))) :: u64)"
    by (simp only: scast_imul16 mac_product_def of_int_add)
  have accum1: "m_accum ?s1 = scast ?res"
    by (simp add: flag_ops)
  show ?thesis
    unfolding imultn_rn_rn_def Let_def loop accum1 acc
    by (simp add: resmac flag_ops PC_def set_PC_def low ctrl_index_defs fun_upd_twist
        del: of_int_add of_int_sum of_int_mult)
qed


section \<open>Properties of the dispatcher\<close>

subsection \<open>No handler adds to the budget\<close>

lemma budget_frame_refl: "budget_frame s s"
  by (simp add: budget_frame_def)

lemma budget_frame_trans: "budget_frame s t \<Longrightarrow> budget_frame t u \<Longrightarrow> budget_frame s u"
  by (simp add: budget_frame_def)

lemmas plain_handler_defs =
  abs_rn_def add_rn_rn_def addc_rn_rn_def addq_n_rn_def addqmod_n_rn_def addqt_n_rn_def
  and_rn_rn_def bclr_n_rn_def bset_n_rn_def btst_n_rn_def cmp_rn_rn_def cmpq_n_rn_def
  div_rn_rn_def illegal_def imacn_rn_rn_def imult_rn_rn_def load_rn_rn_def
  load_r14n_rn_def load_r15n_rn_def load_r14rn_rn_def load_r15rn_rn_def loadb_rn_rn_def
  loadw_rn_rn_def loadp_rn_rn_def mirror_rn_def move_rn_rn_def move_pc_rn_def
  movefa_rn_rn_def movei_n_rn_def moveq_n_rn_def moveta_rn_rn_def mtoi_rn_rn_def
  mult_rn_rn_def neg_rn_def nop_def not_rn_def or_rn_rn_def pack_rn_def resmac_rn_def
  sat8_rn_def sat16_rn_def sat16s_rn_def sat24_rn_def sat32s_rn_def sh_rn_rn_def
  sha_rn_rn_def shlq_n_rn_def store_rn_rn_def store_rn_r14n_def store_rn_r15n_def
  store_rn_r14rn_def store_rn_r15rn_def storeb_rn_rn_def storew_rn_rn_def
  storep_rn_rn_def sub_rn_rn_def subc_rn_rn_def subq_n_rn_def subqmod_n_rn_def
  subqt_n_rn_def xor_rn_rn_def

lemmas state_ops =
  flag_ops set_a_def set_PC_def WRITELONG_def WRITEWORD_def WRITEBYTE_def

lemma plain_handler_frame:
  "budget_frame s (abs_rn op s)"
  "budget_frame s (add_rn_rn op s)"
  "budget_frame s (addc_rn_rn op s)"
  "budget_frame s (addq_n_rn op s)"
  "budget_frame s (addqmod_n_rn op s)"
  "budget_frame s (addqt_n_rn op s)"
  "budget_frame s (and_rn_rn op s)"
  "budget_frame s (bclr_n_rn op s)"
  "budget_frame s (bset_n_rn op s)"
  "budget_frame s (btst_n_rn op s)"
  "budget_frame s (cmp_rn_rn op s)"
  "budget_frame s (cmpq_n_rn op s)"
  "budget_frame s (div_rn_rn op s)"
  "budget_frame s (illegal op s)"
  "budget_frame s (imacn_rn_rn op s)"
  "budget_frame s (imult_rn_rn op s)"
  "budget_frame s (load_rn_rn op s)"
  "budget_frame s (load_r14n_rn op s)"
  "budget_frame s (load_r15n_rn op s)"
  "budget_frame s (load_r14rn_rn op s)"
  "budget_frame s (load_r15rn_rn op s)"
  "budget_frame s (loadb_rn_rn op s)"
  "budget_frame s (loadw_rn_rn op s)"
  "budget_frame s (loadp_rn_rn op s)"
  "budget_frame s (mirror_rn op s)"
  "budget_frame s (move_rn_rn op s)"
  "budget_frame s (move_pc_rn op s)"
  "budget_frame s (movefa_rn_rn op s)"
  "budget_frame s (movei_n_rn op s)"
  "budget_frame s (moveq_n_rn op s)"
  "budget_frame s (moveta_rn_rn op s)"
  "budget_frame s (mtoi_rn_rn op s)"
  "budget_frame s (mult_rn_rn op s)"
  "budget_frame s (neg_rn op s)"
  "budget_frame s (nop op s)"
  "budget_frame s (not_rn op s)"
  "budget_frame s (or_rn_rn op s)"
  "budget_frame s (pack_rn op s)"
  "budget_frame s (resmac_rn op s)"
  "budget_frame s (sat8_rn op s)"
  "budget_frame s (sat16_rn op s)"
  "budget_frame s (sat16s_rn op s)"
  "budget_frame s (sat24_rn op s)"
  "budget_frame s (sat32s_rn op s)"
  "budget_frame s (sh_rn_rn op s)"
  "budget_frame s (sha_rn_rn op s)"
  "budget_frame s (shlq_n_rn op s)"
  "budget_frame s (store_rn_rn op s)"
  "budget_frame s (store_rn_r14n op s)"
  "budget_frame s (store_rn_r15n op s)"
  "budget_frame s (store_rn_r14rn op s)"
  "budget_frame s (store_rn_r15rn op s)"
  "budget_frame s (storeb_rn_rn op s)"
  "budget_frame s (storew_rn_rn op s)"
  "budget_frame s (storep_rn_rn op s)"
  "budget_frame s (sub_rn_rn op s)"
  "budget_frame s (subc_rn_rn op s)"
  "budget_frame s (subq_n_rn op s)"
  "budget_frame s (subqmod_n_rn op s)"
  "budget_frame s (subqt_n_rn op s)"
  "budget_frame s (xor_rn_rn op s)"
  by (simp_all add: budget_frame_def plain_handler_defs state_ops Let_def split: prod.splits)

lemma shift_handler_frame:
  "ror_rn_rn op s = Some s' \<Longrightarrow> budget_frame s s'"
  "rorq_n_rn op s = Some s' \<Longrightarrow> budget_frame s s'"
  "sharq_n_rn op s = Some s' \<Longrightarrow> budget_frame s s'"
  "shrq_n_rn op s = Some s' \<Longrightarrow> budget_frame s s'"
  by (auto simp: budget_frame_def ror_rn_rn_def rorq_n_rn_def sharq_n_rn_def shrq_n_rn_def
      state_ops Let_def split: if_splits)


lemma imultn_loop_frame:
  assumes "imultn_loop op s = Some r"
  shows "budget_frame s (snd r)"
proof (rule imultn_loop.raw_induct [where P = "\<lambda>op s r. budget_frame s (snd r)", OF _ assms])
  fix f :: "u16 \<Rightarrow> jaguar \<Rightarrow> (u16 \<times> jaguar) option" and op s r
  assume ih: "\<And>op s r. f op s = Some r \<Longrightarrow> budget_frame s (snd r)"
  assume body: "(if drop_bit 10 op = 20
      then let r1 = m_r s (SREG op); r2 = m_r s (DREG op);
               s = s\<lparr>m_accum := m_accum s + scast (imul16 r1 r2)\<rparr>;
               s = set_PC (PC s + 2) s
           in f (ROPCODE s (PC s)) s
      else Some (op, s)) = Some r"
  show "budget_frame s (snd r)"
  proof (cases "drop_bit 10 op = 20")
    case True
    let ?s = "set_PC (PC (s\<lparr>m_accum := m_accum s + scast (imul16 (m_r s (SREG op)) (m_r s (DREG op)))\<rparr>) + 2)
                (s\<lparr>m_accum := m_accum s + scast (imul16 (m_r s (SREG op)) (m_r s (DREG op)))\<rparr>)"
    from body True have "f (ROPCODE ?s (PC ?s)) ?s = Some r"
      by (simp add: Let_def)
    then have "budget_frame ?s (snd r)" by (rule ih)
    moreover have "budget_frame s ?s"
      by (simp add: budget_frame_def state_ops)
    ultimately show ?thesis by (rule budget_frame_trans [rotated])
  next
    case False
    with body show ?thesis by (auto simp: budget_frame_refl)
  qed
qed

lemma imultn_rn_rn_frame: "imultn_rn_rn op s = Some s' \<Longrightarrow> budget_frame s s'"
proof -
  assume a: "imultn_rn_rn op s = Some s'"
  let ?res = "imul16 (m_r s (SREG op)) (m_r s (DREG op))"
  let ?s1 = "SET_ZN ?res (CLR_ZN (s\<lparr>m_accum := scast ?res\<rparr>))"
  from a obtain op' s2 where loop: "imultn_loop (ROPCODE ?s1 (PC ?s1)) ?s1 = Some (op', s2)"
    and res: "s' = (if drop_bit 10 op' = 19
                    then set_r (DREG op') (ucast (m_accum (set_PC (PC s2 + 2) s2))) (set_PC (PC s2 + 2) s2)
                    else s2)"
    by (auto simp: imultn_rn_rn_def Let_def split: option.splits if_splits)
  have "budget_frame s ?s1" by (simp add: budget_frame_def state_ops)
  moreover have "budget_frame ?s1 s2" using imultn_loop_frame [OF loop] by simp
  moreover have "budget_frame s2 s'" by (simp add: res budget_frame_def state_ops)
  ultimately show ?thesis by (blast intro: budget_frame_trans)
qed

lemma mmult_rn_rn_frame: "mmult_rn_rn op s = Some s' \<Longrightarrow> budget_frame s s'"
  by (auto simp: mmult_rn_rn_def Let_def budget_frame_def state_ops split: option.splits)

lemma normi_rn_rn_frame: "normi_rn_rn op s = Some s' \<Longrightarrow> budget_frame s s'"
  by (auto simp: normi_rn_rn_def Let_def budget_frame_def state_ops
      split: option.splits if_splits prod.splits Option.bind_splits)


lemma jump_cc_rn_frame:
  assumes invoke: "\<And>op s s'. invoke op s = Some s' \<Longrightarrow> budget_frame s s'"
    and jump: "jump_cc_rn invoke op s = Some s'"
  shows "budget_frame s s'"
proof (cases "CONDITION s (ucast op AND 31) \<noteq> 0")
  case True
  let ?newpc = "if m_icount s = m_bankswitch_icount s then m_a s (SREG op) else m_r s (SREG op)"
  from jump True obtain s2 where
    slot: "invoke (ROPCODE s (PC s)) (set_PC ?newpc s) = Some s2"
    and res: "s' = s2\<lparr>m_icount := m_icount s2 - 3\<rparr>"
    by (auto simp: jump_cc_rn_def Let_def split: Option.bind_splits)
  have "budget_frame (set_PC ?newpc s) s2" using slot by (rule invoke)
  then show ?thesis by (simp add: res budget_frame_def state_ops)
next
  case False
  with jump show ?thesis by (simp add: jump_cc_rn_def budget_frame_refl)
qed

lemma jr_cc_n_frame:
  assumes invoke: "\<And>op s s'. invoke op s = Some s' \<Longrightarrow> budget_frame s s'"
    and jump: "jr_cc_n invoke op s = Some s'"
  shows "budget_frame s s'"
proof (cases "CONDITION s (ucast op AND 31) \<noteq> 0")
  case True
  let ?newpc = "PC s + scast (signed_drop_bit 2 (ucast (drop_bit 2 op AND 0xf8) :: u8))"
  from jump True obtain s2 where
    slot: "invoke (ROPCODE s (PC s)) (set_PC ?newpc s) = Some s2"
    and res: "s' = s2\<lparr>m_icount := m_icount s2 - 3\<rparr>"
    by (auto simp: jr_cc_n_def Let_def split: Option.bind_splits)
  have "budget_frame (set_PC ?newpc s) s2" using slot by (rule invoke)
  then show ?thesis by (simp add: res budget_frame_def state_ops)
next
  case False
  with jump show ?thesis by (simp add: jr_cc_n_def budget_frame_refl)
qed

lemma call_frame:
  assumes "call f op s = Some s'"
  shows "budget_frame s s'"
  apply (rule call.raw_induct [where P = "\<lambda>f op s s'. budget_frame s s'", OF _ assms])
  subgoal premises prems for c f op s s'
  proof -
    have ih: "\<And>f op s s'. c f op s = Some s' \<Longrightarrow> budget_frame s s'"
      using prems(1) .
    have jump: "jump_cc_rn (\<lambda>op. c (m_table s ! unat (drop_bit 10 op)) op) op s = Some s'
        \<Longrightarrow> budget_frame s s'"
      by (rule jump_cc_rn_frame [rotated]) (auto dest: ih)
    have jr: "jr_cc_n (\<lambda>op. c (m_table s ! unat (drop_bit 10 op)) op) op s = Some s'
        \<Longrightarrow> budget_frame s s'"
      by (rule jr_cc_n_frame [rotated]) (auto dest: ih)
    show ?thesis
      using prems(2)
      by (cases f)
         (auto simp: plain_handler_frame
           intro: jump jr imultn_rn_rn_frame mmult_rn_rn_frame normi_rn_rn_frame
                  shift_handler_frame)
  qed
  done



subsection \<open>Dispatching single instructions\<close>

lemma execute_one_frame:
  assumes "execute_one table s = Some s'"
  shows "m_icount s' < m_icount s"
proof -
  let ?s = "set_PC (PC (s\<lparr>m_ppc := PC s\<rparr>) + 2) (s\<lparr>m_ppc := PC s\<rparr>)"
  let ?op = "ROPCODE (s\<lparr>m_ppc := PC s\<rparr>) (PC (s\<lparr>m_ppc := PC s\<rparr>))"
  from assms obtain s2 where
    c: "call (table ! unat (drop_bit 10 ?op)) ?op ?s = Some s2"
    and res: "s' = s2\<lparr>m_icount := m_icount s2 - 1\<rparr>"
    by (auto simp: execute_one_def Let_def split: Option.bind_splits)
  have "budget_frame ?s s2" using c by (rule call_frame)
  then show ?thesis by (simp add: res budget_frame_def state_ops)
qed

lemma call_plain:
  "call OP_add_rn_rn op s = Some (add_rn_rn op s)"
  "call OP_nop op s = Some (nop op s)"
  "call OP_imultn_rn_rn op s = imultn_rn_rn op s"
  "call OP_jump_cc_rn op s = jump_cc_rn (\<lambda>op. call (m_table s ! unat (drop_bit 10 op)) op) op s"
  by (subst call.simps, simp)+

lemma table_entries:
  "gpu_op_table ! 0 = OP_add_rn_rn" "dsp_op_table ! 0 = OP_add_rn_rn"
  "gpu_op_table ! 18 = OP_imultn_rn_rn" "dsp_op_table ! 18 = OP_imultn_rn_rn"
  "gpu_op_table ! 52 = OP_jump_cc_rn" "dsp_op_table ! 52 = OP_jump_cc_rn"
  by (simp_all add: gpu_op_table_def dsp_op_table_def)

subsection \<open>The multiply and accumulate chain in one dispatch step\<close>

text \<open>
  Claim C2. When the word at the program counter is an \<^verbatim>\<open>imultn\<close>, the \<open>n\<close>
  words after it are of the \<^verbatim>\<open>imacn\<close> class and the word after those is of the
  \<^verbatim>\<open>resmac\<close> class, one pass through the dispatcher (of either variant) returns,
  with the accumulator holding the sum of the signed 16 by 16 products of the operands of
  \<^verbatim>\<open>imultn\<close> and of every \<^verbatim>\<open>imacn\<close> word, the program counter past all
  \<open>n + 2\<close> words, the low 32 bits of the sum in the register named by the
  \<^verbatim>\<open>resmac\<close> word, Z and N set from the first product, and the budget reduced by
  one. For \<open>n = 2\<close> all four words are consumed and three products are summed.
\<close>

theorem imultn_chain_single_step:
  assumes imultn: "drop_bit 10 (word_at s 0) = 18"
    and imacn: "\<forall>i<n. drop_bit 10 (word_at s (Suc i)) = 20"
    and resmac: "drop_bit 10 (word_at s (Suc n)) = 19"
  shows "(let total = mac_product s (word_at s 0) + (\<Sum>i<n. mac_product s (word_at s (Suc i)));
              res = imul16 (m_r s (SREG (word_at s 0))) (m_r s (DREG (word_at s 0)));
              s1 = SET_ZN res (CLR_ZN s);
              s' = s1\<lparr>m_r := (m_r s)(DREG (word_at s (Suc n)) := of_int total),
                      m_accum := of_int total,
                      m_ctrl := (m_ctrl s1)(G_PC := PC s + 2 * of_nat (n + 2)),
                      m_ppc := PC s,
                      m_icount := m_icount s - 1\<rparr>
          in execute_one gpu_op_table s = Some s' \<and> execute_one dsp_op_table s = Some s')"
proof -
  let ?s = "set_PC (PC s + 2) (s\<lparr>m_ppc := PC s\<rparr>)"
  let ?op = "word_at s 0"
  have words: "word_at ?s i = word_at s (Suc i)" for i
    by (simp add: word_at_def ROPCODE_def PC_def set_PC_def set_ctrl_def algebra_simps)
  have prods: "mac_product ?s w = mac_product s w" for w
    by (simp add: mac_product_def set_PC_def set_ctrl_def)
  have macs: "\<forall>i<n. drop_bit 10 (word_at ?s i) = 20"
    using imacn by (simp add: words)
  have last: "drop_bit 10 (word_at ?s n) = 19"
    using resmac by (simp add: words)
  have fetch: "ROPCODE (s\<lparr>m_ppc := PC s\<rparr>) (PC s) = ?op"
    "PC (s\<lparr>m_ppc := PC s\<rparr>) = PC s"
    by (simp_all add: word_at_def ROPCODE_def PC_def)
  have index: "unat (drop_bit 10 ?op) = 18"
    using imultn by simp
  have one: "execute_one table s =
      Option.bind (imultn_rn_rn ?op ?s) (\<lambda>s. Some (s\<lparr>m_icount := m_icount s - 1\<rparr>))"
    if "table ! 18 = OP_imultn_rn_rn" for table
    by (simp add: execute_one_def Let_def fetch index that call_plain)
  show ?thesis
    unfolding Let_def one [OF table_entries(3)] one [OF table_entries(4)]
      imultn_rn_rn_chain [OF macs last] words prods
    by (simp add: flag_ops PC_def set_PC_def ctrl_index_defs fun_upd_twist algebra_simps
        del: of_int_add of_int_sum of_int_mult)
qed


lemma mac_program_words:
  "word_at mac_program 0 = 0x4822" "word_at mac_program (Suc 0) = 0x5064"
  "word_at mac_program (Suc (Suc 0)) = 0x50a6" "word_at mac_program 2 = 0x50a6"
  "word_at mac_program 3 = 0x4c07"
  by (simp_all add: mac_program_def word_at_def ROPCODE_def read_word_def PC_def start_defs)

theorem imultn_chain_single_step_witness:
  "map_option PC (execute_one gpu_op_table mac_program) = Some 8 \<and>
   map_option m_accum (execute_one gpu_op_table mac_program) = Some 0xffffffffffff0011 \<and>
   map_option (\<lambda>s. m_r s 7) (execute_one gpu_op_table mac_program) = Some 0xffff0011 \<and>
   map_option m_icount (execute_one gpu_op_table mac_program) = Some (- 1)"
proof -
  have a: "drop_bit 10 (word_at mac_program 0) = 18"
    by (simp add: mac_program_words)
  have b: "\<forall>i<2. drop_bit 10 (word_at mac_program (Suc i)) = 20"
  proof (intro allI impI)
    fix i :: nat
    assume "i < 2"
    then consider "i = 0" | "i = Suc 0" by linarith
    then show "drop_bit 10 (word_at mac_program (Suc i)) = 20"
      by cases (simp_all add: mac_program_words)
  qed
  have c: "drop_bit 10 (word_at mac_program (Suc 2)) = 19"
    by (simp add: mac_program_words)
  have sum2: "(\<Sum>i<(2::nat). f i) = f 0 + f (Suc 0)" for f :: "nat \<Rightarrow> int"
    by (simp add: numeral_2_eq_2)
  have regs: "m_r mac_program = (\<lambda>_. 0)(1 := 3, 2 := 0xffff, 3 := 4, 4 := 5, 5 := 0x8000, 6 := 2)"
    "m_ctrl mac_program = (\<lambda>_. 0)" "m_icount mac_program = 0"
    by (simp_all add: mac_program_def start_defs)
  show ?thesis
    using imultn_chain_single_step [OF a b c]
    by (simp add: Let_def sum2 mac_program_words mac_product_def SREG_def DREG_def
        regs PC_def flag_ops ctrl_index_defs)
qed


subsection \<open>The bank-switch sentinel\<close>

lemmas swap_defs =
  after_swap_def jaguargpu_ctrl_w_def COMBINE_DATA_def check_irqs_def update_register_banks_eq
  set_ctrl_def FLAGS_def Let_def flag_defs ctrl_index_defs start_defs

text \<open>
  Claim C4, as the code has it. A register-bank swap records as sentinel the cycle
  budget at the moment of the swap minus one (the budget left once the instruction that
  swaps has been counted, with which the instruction after it runs), not the budget
  itself. At the loop test, a remaining budget that is not positive but equals the
  sentinel makes the run loop go through one more pass. That sentinel grants no further
  pass: after the pass the budget is below it, so the loop goes on only if the pass
  itself recorded a new sentinel equal to the new budget, and when the pass leaves the
  sentinel as it was, the loop returns the state after this one pass. A budget that is
  not positive and differs from the sentinel ends the loop. A taken \<^verbatim>\<open>jump_cc\<close> run
  while the remaining budget equals the sentinel takes its target from the alternate
  bank \<^verbatim>\<open>m_a\<close>, otherwise from the active bank \<^verbatim>\<open>m_r\<close>; it then runs the
  instruction in the delay slot and charges 3 cycles.
\<close>

theorem bankswitch_sentinel:
  "(m_b0 s \<noteq> m_b1 s \<longrightarrow>
      m_bankswitch_icount (update_register_banks s) =
        (if (FLAGS s AND IFLAG \<noteq> 0 \<or> FLAGS s AND RPAGEFLAG = 0) = (m_b0 s = PTR_R)
         then m_bankswitch_icount s else m_icount s - 1)) \<and>
   (m_icount s \<le> 0 \<and> m_icount s = m_bankswitch_icount s \<longrightarrow>
      loop_again s \<and>
      execute_loop table s =
        Option.bind (execute_one table s)
          (\<lambda>s'. if m_icount s' = m_bankswitch_icount s' then execute_loop table s'
                else Some s') \<and>
      (\<forall>s'. execute_one table s = Some s' \<longrightarrow>
         m_icount s' < m_bankswitch_icount s \<and>
         (m_bankswitch_icount s' = m_bankswitch_icount s \<longrightarrow>
            execute_loop table s = Some s'))) \<and>
   (m_icount s \<le> 0 \<and> m_icount s \<noteq> m_bankswitch_icount s \<longrightarrow> \<not> loop_again s) \<and>
   (CONDITION s (ucast op AND 31) \<noteq> 0 \<longrightarrow>
      call OP_jump_cc_rn op s =
        Option.bind
          (call (m_table s ! unat (drop_bit 10 (ROPCODE s (PC s)))) (ROPCODE s (PC s))
             (set_PC (if m_icount s = m_bankswitch_icount s then m_a s (SREG op)
                      else m_r s (SREG op)) s))
          (\<lambda>s. Some (s\<lparr>m_icount := m_icount s - 3\<rparr>)))"
proof -
  have a: "m_bankswitch_icount (update_register_banks s) =
        (if (FLAGS s AND IFLAG \<noteq> 0 \<or> FLAGS s AND RPAGEFLAG = 0) = (m_b0 s = PTR_R)
         then m_bankswitch_icount s else m_icount s - 1)" if "m_b0 s \<noteq> m_b1 s"
  proof -
    have "m_b0 s = PTR_R \<and> m_b1 s = PTR_A \<or> m_b0 s = PTR_A \<and> m_b1 s = PTR_R"
      using that by (cases "m_b0 s"; cases "m_b1 s") simp_all
    then show ?thesis by (auto simp: update_register_banks_eq Let_def)
  qed
  have b: "loop_again s \<and>
      execute_loop table s =
        Option.bind (execute_one table s)
          (\<lambda>s'. if m_icount s' = m_bankswitch_icount s' then execute_loop table s'
                else Some s') \<and>
      (\<forall>s'. execute_one table s = Some s' \<longrightarrow>
         m_icount s' < m_bankswitch_icount s \<and>
         (m_bankswitch_icount s' = m_bankswitch_icount s \<longrightarrow>
            execute_loop table s = Some s'))"
    if le: "m_icount s \<le> 0" and eq: "m_icount s = m_bankswitch_icount s"
  proof (intro conjI allI impI)
    show "loop_again s" using eq by (simp add: loop_again_def)
  next
    show "execute_loop table s =
        Option.bind (execute_one table s)
          (\<lambda>s'. if m_icount s' = m_bankswitch_icount s' then execute_loop table s'
                else Some s')"
    proof (cases "execute_one table s")
      case None
      then show ?thesis by (subst execute_loop.simps) simp
    next
      case (Some s')
      from execute_one_frame [OF Some] le
      have "loop_again s' \<longleftrightarrow> m_icount s' = m_bankswitch_icount s'"
        by (simp add: loop_again_def)
      with Some show ?thesis by (subst execute_loop.simps) simp
    qed
  next
    fix s'
    assume one: "execute_one table s = Some s'"
    show "m_icount s' < m_bankswitch_icount s"
      using execute_one_frame [OF one] eq by simp
  next
    fix s'
    assume one: "execute_one table s = Some s'"
      and same: "m_bankswitch_icount s' = m_bankswitch_icount s"
    from execute_one_frame [OF one] le eq same have "\<not> loop_again s'"
      by (simp add: loop_again_def)
    with one show "execute_loop table s = Some s'"
      by (subst execute_loop.simps) simp
  qed
  have c: "\<not> loop_again s" if "m_icount s \<le> 0" "m_icount s \<noteq> m_bankswitch_icount s"
    using that by (simp add: loop_again_def)
  have d: "call OP_jump_cc_rn op s =
        Option.bind
          (call (m_table s ! unat (drop_bit 10 (ROPCODE s (PC s)))) (ROPCODE s (PC s))
             (set_PC (if m_icount s = m_bankswitch_icount s then m_a s (SREG op)
                      else m_r s (SREG op)) s))
          (\<lambda>s. Some (s\<lparr>m_icount := m_icount s - 3\<rparr>))"
    if "CONDITION s (ucast op AND 31) \<noteq> 0"
    using that by (simp add: call_plain jump_cc_rn_def Let_def)
  from a b c d show ?thesis by blast
qed

theorem bankswitch_sentinel_witness:
  "m_b0 ((set_FLAGS RPAGEFLAG gpu0)\<lparr>m_icount := 10\<rparr>) \<noteq>
     m_b1 ((set_FLAGS RPAGEFLAG gpu0)\<lparr>m_icount := 10\<rparr>) \<and>
   m_bankswitch_icount (update_register_banks ((set_FLAGS RPAGEFLAG gpu0)\<lparr>m_icount := 10\<rparr>)) = 9 \<and>
   m_b0 after_swap = PTR_A \<and> m_r after_swap 1 = 0x1000 \<and> m_a after_swap 1 = 0x2000 \<and>
   m_icount after_swap = 0 \<and> m_bankswitch_icount after_swap = 0 \<and>
   loop_again after_swap \<and>
   map_option m_icount (execute_one gpu_op_table after_swap) = Some (- 1) \<and>
   map_option m_bankswitch_icount (execute_one gpu_op_table after_swap) = Some 0 \<and>
   execute_loop gpu_op_table after_swap = execute_one gpu_op_table after_swap \<and>
   map_option m_icount (execute_loop gpu_op_table after_swap) = Some (- 1) \<and>
   \<not> loop_again (after_swap\<lparr>m_icount := - 1\<rparr>) \<and>
   CONDITION after_swap (ucast (0xd020 :: u16) AND 31) \<noteq> 0 \<and>
   map_option PC (call OP_jump_cc_rn 0xd020 after_swap) = Some 0x2000 \<and>
   map_option PC (call OP_jump_cc_rn 0xd020 (after_swap\<lparr>m_bankswitch_icount := - 1000\<rparr>)) =
     Some 0x1000"
proof -
  let ?a = "(set_FLAGS RPAGEFLAG gpu0)\<lparr>m_icount := 10\<rparr>"
  let ?t = "after_swap\<lparr>m_bankswitch_icount := - 1000\<rparr>"
  let ?u = "after_swap\<lparr>m_icount := - 1\<rparr>"
  let ?q = "add_rn_rn 0 (set_PC (PC after_swap + 2) (after_swap\<lparr>m_ppc := PC after_swap\<rparr>))"
  let ?p = "?q\<lparr>m_icount := m_icount ?q - 1\<rparr>"
  have wf: "m_b0 ?a \<noteq> m_b1 ?a"
    by (simp add: set_FLAGS_def set_ctrl_def start_defs)
  have swap: "m_bankswitch_icount (update_register_banks ?a) = 9"
    using bankswitch_sentinel [of ?a gpu_op_table 0, THEN conjunct1, THEN mp, OF wf]
    by (simp add: set_FLAGS_def set_ctrl_def FLAGS_def flag_defs ctrl_index_defs start_defs)
  have banks: "m_b0 after_swap = PTR_A" "m_r after_swap 1 = 0x1000" "m_a after_swap 1 = 0x2000"
    by (simp_all add: swap_defs)
  have budget: "m_icount after_swap = 0" "m_bankswitch_icount after_swap = 0"
    by (simp_all add: swap_defs)
  then have at_sentinel: "m_icount after_swap \<le> 0 \<and> m_icount after_swap = m_bankswitch_icount after_swap"
    by simp
  note pass = bankswitch_sentinel [of after_swap gpu_op_table 0, THEN conjunct2, THEN conjunct1,
        THEN mp, OF at_sentinel]
  have again: "loop_again after_swap"
    using pass by (rule conjunct1)
  have slot: "ROPCODE after_swap (PC after_swap) = 0" "ROPCODE ?t (PC ?t) = 0"
    "m_table after_swap = gpu_op_table" "m_table ?t = gpu_op_table"
    by (simp_all add: swap_defs ROPCODE_def read_word_def PC_def m_table_def)
  have fetch: "ROPCODE (after_swap\<lparr>m_ppc := PC after_swap\<rparr>) (PC after_swap) = 0"
    "PC (after_swap\<lparr>m_ppc := PC after_swap\<rparr>) = PC after_swap"
    using slot(1) by (simp_all add: ROPCODE_def PC_def)
  have one: "execute_one gpu_op_table after_swap = Some ?p"
    by (simp add: execute_one_def Let_def fetch table_entries call_plain)
  have after: "m_icount ?p = - 1" "m_bankswitch_icount ?p = 0"
    using budget by (simp_all add: add_rn_rn_def Let_def flag_ops set_PC_def)
  have same: "m_bankswitch_icount ?p = m_bankswitch_icount after_swap"
    using after(2) budget(2) by simp
  have loop: "execute_loop gpu_op_table after_swap = Some ?p"
    using pass [THEN conjunct2, THEN conjunct2, THEN spec, THEN mp, OF one,
        THEN conjunct2, THEN mp, OF same] .
  have once: "map_option m_icount (execute_one gpu_op_table after_swap) = Some (- 1)"
    "map_option m_bankswitch_icount (execute_one gpu_op_table after_swap) = Some 0"
    by (simp_all only: one option.map after)
  have ran: "execute_loop gpu_op_table after_swap = execute_one gpu_op_table after_swap"
    "map_option m_icount (execute_loop gpu_op_table after_swap) = Some (- 1)"
    by (simp_all only: loop one option.map after)
  have spent: "m_icount ?u \<le> 0 \<and> m_icount ?u \<noteq> m_bankswitch_icount ?u"
    using budget by simp
  have stop: "\<not> loop_again ?u"
    using bankswitch_sentinel [of ?u gpu_op_table 0, THEN conjunct2, THEN conjunct2,
        THEN conjunct1, THEN mp, OF spent] .
  have cond: "CONDITION after_swap (ucast (0xd020 :: u16) AND 31) \<noteq> 0"
    "CONDITION ?t (ucast (0xd020 :: u16) AND 31) \<noteq> 0"
    by (simp_all add: swap_defs CONDITION_def condition_table_def condition_entry_def)
  have regs: "m_a after_swap (SREG 0xd020) = 0x2000" "m_r after_swap (SREG 0xd020) = 0x1000"
    by (simp_all add: swap_defs SREG_def)
  have alternate: "map_option PC (call OP_jump_cc_rn 0xd020 after_swap) = Some 0x2000"
    using bankswitch_sentinel [of after_swap gpu_op_table "0xd020", THEN conjunct2,
        THEN conjunct2, THEN conjunct2, THEN mp, OF cond(1)]
    by (simp add: slot table_entries call_plain budget regs)
       (simp add: add_rn_rn_def Let_def flag_ops set_PC_def PC_def ctrl_index_defs)
  have active: "map_option PC (call OP_jump_cc_rn 0xd020 ?t) = Some 0x1000"
    using bankswitch_sentinel [of ?t gpu_op_table "0xd020", THEN conjunct2,
        THEN conjunct2, THEN conjunct2, THEN mp, OF cond(2)]
    by (simp add: slot table_entries call_plain budget regs)
       (simp add: add_rn_rn_def Let_def flag_ops set_PC_def PC_def ctrl_index_defs)
  from wf swap banks budget again once ran stop cond(1) alternate active
  show ?thesis by blast
qed

text \<open>
  The claim as stated has the swap record the budget at the moment of the swap, and the
  loop run exactly one more pass at the sentinel. A swap at budget 10 records 9. And a
  pass entered at the sentinel can record a new one: when the additional pass on
  \<open>after_swap\<close> (budget 0, sentinel 0) writes 0 to the flags register, the banks swap
  back, the sentinel becomes \<open>- 1\<close>, and once the pass is counted the budget is
  \<open>- 1\<close> and the loop test passes again.
\<close>

theorem sentinel_is_budget_minus_one:
  "m_icount ((set_FLAGS RPAGEFLAG gpu0)\<lparr>m_icount := 10\<rparr>) = 10 \<and>
   m_b0 (update_register_banks ((set_FLAGS RPAGEFLAG gpu0)\<lparr>m_icount := 10\<rparr>)) = PTR_A \<and>
   m_bankswitch_icount (update_register_banks ((set_FLAGS RPAGEFLAG gpu0)\<lparr>m_icount := 10\<rparr>)) \<noteq>
     m_icount ((set_FLAGS RPAGEFLAG gpu0)\<lparr>m_icount := 10\<rparr>) \<and>
   m_icount after_swap = 0 \<and> m_bankswitch_icount after_swap = 0 \<and>
   m_bankswitch_icount (jaguargpu_ctrl_w G_FLAGS 0 0xffffffff after_swap) = - 1 \<and>
   m_icount ((jaguargpu_ctrl_w G_FLAGS 0 0xffffffff after_swap)
              \<lparr>m_icount := m_icount after_swap - 1\<rparr>) = - 1 \<and>
   loop_again ((jaguargpu_ctrl_w G_FLAGS 0 0xffffffff after_swap)
              \<lparr>m_icount := m_icount after_swap - 1\<rparr>)"
  by (simp add: loop_again_def swap_defs set_FLAGS_def)

subsection \<open>Running a halted device\<close>

text \<open>
  Claim C8, as the code has it. With the run bit of the control register clear, the run
  entry point of either variant returns at once without executing an instruction; it
  sets the remaining cycle budget to 0, so that the whole budget is given up, and
  leaves everything else (general registers, flags, program counter, control
  registers, memory) as it was.
\<close>

theorem execute_run_halted:
  assumes "m_ctrl s G_CTRL AND 1 = 0"
  shows "jaguargpu_execute_run s = Some (s\<lparr>m_icount := 0\<rparr>) \<and>
         jaguardsp_execute_run s = Some (s\<lparr>m_icount := 0\<rparr>)"
  using assms by (simp add: jaguargpu_execute_run_def jaguardsp_execute_run_def)

theorem execute_run_halted_witness:
  "m_ctrl (gpu0\<lparr>m_icount := 5\<rparr>) G_CTRL AND 1 = 0 \<and>
   jaguargpu_execute_run (gpu0\<lparr>m_icount := 5\<rparr>) = Some gpu0 \<and>
   jaguardsp_execute_run (dsp0\<lparr>m_icount := 5\<rparr>) = Some dsp0"
proof -
  have g: "m_ctrl (gpu0\<lparr>m_icount := 5\<rparr>) G_CTRL AND 1 = 0"
    and d: "m_ctrl (dsp0\<lparr>m_icount := 5\<rparr>) G_CTRL AND 1 = 0"
    by (simp_all add: start_defs)
  show ?thesis
    using g execute_run_halted [OF g] execute_run_halted [OF d]
    by (simp add: start_defs)
qed

text \<open>
  The claim as stated has the run consume nothing of its budget. Entered with a budget
  of 5, the halted GPU returns with a remaining budget of 0, not 5: the 5 cycles are
  gone.
\<close>

theorem execute_run_halted_drops_budget:
  "m_ctrl (gpu0\<lparr>m_icount := 5\<rparr>) G_CTRL AND 1 = 0 \<and>
   m_icount (gpu0\<lparr>m_icount := 5\<rparr>) = 5 \<and>
   map_option m_icount (jaguargpu_execute_run (gpu0\<lparr>m_icount := 5\<rparr>)) = Some 0 \<and>
   map_option (\<lambda>s'. m_icount (gpu0\<lparr>m_icount := 5\<rparr>) - m_icount s')
     (jaguargpu_execute_run (gpu0\<lparr>m_icount := 5\<rparr>)) = Some 5 \<and>
   jaguargpu_execute_run (gpu0\<lparr>m_icount := 5\<rparr>) \<noteq> Some (gpu0\<lparr>m_icount := 5\<rparr>)"
  by (simp add: jaguargpu_execute_run_def start_defs)

end
